theory Spec2Isabelle
  imports Main "HOL-Library.Sublist"
begin

section \<open>Data model of \<open>src/kling/api.py\<close>\<close>

text \<open>
  Modelled from the spec: the enumeration \<open>kling.TaskStatus\<close> is imported by
  \<open>api.py\<close> from a module that is not among the sources; the spec gives it the three
  provider states PENDING, COMPLETED and FAILED.
\<close>

datatype TaskStatus = PENDING | COMPLETED | FAILED

text \<open>\<open>status.name.lower()\<close> of \<open>get_video_status\<close>.\<close>

fun name_lower :: "TaskStatus \<Rightarrow> string" where
  "name_lower PENDING = ''pending''"
| "name_lower COMPLETED = ''completed''"
| "name_lower FAILED = ''failed''"

text \<open>
  A task id is an \<open>int\<close> in \<open>poll_and_notify\<close> and \<open>create_video\<close>, and a \<open>str\<close>
  (the path parameter) in \<open>get_video_status\<close>.
\<close>

datatype task_id = IntId int | StrId string

text \<open>The JSON values that the code puts into request and response bodies.\<close>

datatype json = JInt int | JStr string | JList "json list"

type_synonym payload = "(string \<times> json) list"

text \<open>
  Exceptions. \<open>Exn s\<close> is any exception raised by a collaborator (the provider client,
  the HTTP client, the file system), carrying its description \<open>str(e) = s\<close>;
  \<open>HTTPException code detail\<close> is the one \<open>api.py\<close> raises itself.
\<close>

datatype exn = Exn string | HTTPException nat string

text \<open>The provider's metadata dictionary and the dictionaries in its \<open>"works"\<close> list.\<close>

type_synonym work = "string \<rightharpoonup> int"
type_synonym metadata = "string \<rightharpoonup> work list"

text \<open>The response of \<open>client.get\<close>: \<open>headers\<close> and \<open>content\<close> are read by the code.\<close>

record response =
  status_code :: nat
  headers :: "string \<rightharpoonup> string"
  content :: string

text \<open>\<open>class VideoRequest(BaseModel)\<close>.\<close>

record VideoRequest =
  prompt :: string
  image_url :: "string option"
  image_path :: "string option"
  is_high_quality :: bool
  auto_extend :: bool
  model_name :: string
  webhook_url :: "string option"

text \<open>The keyword arguments of the call \<open>generator.get_video(...)\<close>.\<close>

record get_video_args =
  kw_prompt :: string
  kw_image_url :: "string option"
  kw_image_path :: "string option"
  kw_is_high_quality :: bool
  kw_model_name :: string
  kw_return_task_only :: bool

text \<open>
  Effects. Every call that leaves the process is recorded, in order, in a history;
  a call is recorded whether it returns or raises (a POST that raises is still a delivery
  attempt). \<open>TempFileCreated\<close> is recorded when \<open>NamedTemporaryFile\<close> has
  created the file of that name. \<open>print\<close> and \<open>traceback.print_exc\<close> are not
  recorded.
\<close>

datatype event =
    ClientGet string
  | TempFileCreated string
  | TempFileWrite string string
  | GetVideo get_video_args
  | OsRemove string
  | FetchMetadata task_id
  | FetchVideoUrl int
  | ClientPost string payload
  | Sleep nat

type_synonym history = "event list"

text \<open>
  The collaborators: the provider client \<open>VideoGen\<close> (not among the sources), the HTTP
  client, the temporary-file and path functions of the standard library. Each is a
  parameter. What a call answers may depend on everything that happened before it, so
  each effectful collaborator reads the history; \<open>Inl e\<close> (or \<open>Some e\<close> where nothing
  is returned) is the call raising \<open>e\<close>. Constructing the clients (\<open>VideoGen(KLING_COOKIE)\<close>,
  \<open>httpx.AsyncClient()\<close>) is taken to succeed, and task cancellation is not modelled.
  \<^item> \<open>NamedTemporaryFile\<close> answers the part of the file name before the suffix
    (directory, prefix and random characters); the name is that followed by the suffix.
  \<^item> \<open>temp_write\<close> stands for \<open>temp_file.write\<close> and the close at the end of the
    \<open>with\<close> block.
  \<^item> \<open>splitext_ext p\<close> is \<open>os.path.splitext(p)[1]\<close>, \<open>urlparse_path u\<close> is
    \<open>urlparse(u).path\<close>, \<open>str_HTTPException c d\<close> is \<open>str(HTTPException(c, d))\<close>.
\<close>

record env =
  client_get :: "history \<Rightarrow> string \<Rightarrow> exn + response"
  raise_for_status :: "response \<Rightarrow> exn option"
  urlparse_path :: "string \<Rightarrow> string"
  splitext_ext :: "string \<Rightarrow> string"
  NamedTemporaryFile :: "history \<Rightarrow> string \<Rightarrow> exn + string"
  temp_write :: "history \<Rightarrow> string \<Rightarrow> string \<Rightarrow> exn option"
  get_video :: "history \<Rightarrow> get_video_args \<Rightarrow> exn + int"
  os_remove :: "history \<Rightarrow> string \<Rightarrow> exn option"
  fetch_metadata :: "history \<Rightarrow> task_id \<Rightarrow> exn + metadata \<times> TaskStatus"
  fetch_video_url :: "history \<Rightarrow> int \<Rightarrow> exn + string option \<times> TaskStatus"
  client_post :: "history \<Rightarrow> string \<Rightarrow> payload \<Rightarrow> exn option"
  str_HTTPException :: "nat \<Rightarrow> string \<Rightarrow> string"

text \<open>\<open>str(e)\<close>.\<close>

fun str :: "env \<Rightarrow> exn \<Rightarrow> string" where
  "str env (Exn s) = s"
| "str env (HTTPException c d) = str_HTTPException env c d"

text \<open>Python's truth value of an \<open>Optional[str]\<close>: \<open>None\<close> and \<open>""\<close> are false.\<close>

fun truthy :: "string option \<Rightarrow> bool" where
  "truthy None = False"
| "truthy (Some s) = (s \<noteq> [])"

text \<open>\<open>needle in haystack\<close> on strings: \<open>needle\<close> occurs as a contiguous piece.\<close>

definition str_in :: "string \<Rightarrow> string \<Rightarrow> bool" where
  "str_in needle haystack = sublist needle haystack"

text \<open>\<open>KeyError('workId')\<close>, whose \<open>str\<close> is the key in single quotes.\<close>

definition KeyError_workId :: exn where
  "KeyError_workId = Exn ([CHR 0x27] @ ''workId'' @ [CHR 0x27])"

section \<open>Resolving the works of a completed task\<close>

text \<open>
  The loop of lines 45-49 (and 147-151):
  \<^verbatim>\<open>
  for work in works:
      work_id = work["workId"]
      resource, _ = generator.fetch_video_url(work_id)
      if resource:
          video_urls.append(resource)
  \<close>
  There is no \<open>try\<close> inside the loop: a missing key or a raising lookup leaves it.
\<close>

fun collect_video_urls ::
  "env \<Rightarrow> work list \<Rightarrow> string list \<Rightarrow> history \<Rightarrow> (exn + string list) \<times> history" where
  "collect_video_urls env [] video_urls h = (Inr video_urls, h)"
| "collect_video_urls env (work # works) video_urls h =
     (case work ''workId'' of
        None \<Rightarrow> (Inl KeyError_workId, h)
      | Some work_id \<Rightarrow>
          (case fetch_video_url env h work_id of
             Inl e \<Rightarrow> (Inl e, h @ [FetchVideoUrl work_id])
           | Inr (resource, _) \<Rightarrow>
               collect_video_urls env works
                 (case resource of
                    None \<Rightarrow> video_urls
                  | Some r \<Rightarrow> if r \<noteq> [] then video_urls @ [r] else video_urls)
                 (h @ [FetchVideoUrl work_id])))"

text \<open>\<open>data.get("works", [])\<close>.\<close>

definition get_works :: "metadata \<Rightarrow> work list" where
  "get_works data = (case data ''works'' of None \<Rightarrow> [] | Some ws \<Rightarrow> ws)"

section \<open>\<open>poll_and_notify\<close>\<close>

definition completed_payload :: "int \<Rightarrow> string list \<Rightarrow> payload" where
  "completed_payload task_id video_urls =
     [(''task_id'', JInt task_id), (''status'', JStr ''completed''),
      (''video_urls'', JList (map JStr video_urls))]"

definition failed_payload :: "int \<Rightarrow> payload" where
  "failed_payload task_id =
     [(''task_id'', JInt task_id), (''status'', JStr ''failed''),
      (''error'', JStr ''Video generation failed'')]"

definition error_payload :: "int \<Rightarrow> string \<Rightarrow> payload" where
  "error_payload task_id description =
     [(''task_id'', JInt task_id), (''status'', JStr ''error''),
      (''error'', JStr description)]"

text \<open>\<open>await client.post(webhook_url, json=body)\<close>: the attempt is recorded either way.\<close>

definition post :: "env \<Rightarrow> string \<Rightarrow> payload \<Rightarrow> history \<Rightarrow> exn option \<times> history" where
  "post env url body h =
     (client_post env h url body, h @ [ClientPost url body])"

text \<open>
  How the body of the \<open>try\<close> (lines 38-67) ends when it does not raise: at a
  \<open>break\<close>, or after the sleep, which goes round the \<open>while True\<close> again.
\<close>

datatype ctl = Break | Continue

definition poll_try :: "env \<Rightarrow> int \<Rightarrow> string \<Rightarrow> history \<Rightarrow> (exn + ctl) \<times> history" where
  "poll_try env task_id url h =
     (case fetch_metadata env h (IntId task_id) of
        Inl e \<Rightarrow> (Inl e, h @ [FetchMetadata (IntId task_id)])
      | Inr (data, status) \<Rightarrow>
          (let h1 = h @ [FetchMetadata (IntId task_id)] in
           if status = COMPLETED then
             (case collect_video_urls env (get_works data) [] h1 of
                (Inl e, h2) \<Rightarrow> (Inl e, h2)
              | (Inr video_urls, h2) \<Rightarrow>
                  (case post env url (completed_payload task_id video_urls) h2 of
                     (Some e, h3) \<Rightarrow> (Inl e, h3)
                   | (None, h3) \<Rightarrow> (Inr Break, h3)))
           else if status = FAILED then
             (case post env url (failed_payload task_id) h1 of
                (Some e, h3) \<Rightarrow> (Inl e, h3)
              | (None, h3) \<Rightarrow> (Inr Break, h3))
           else (Inr Continue, h1 @ [Sleep 5])))"

text \<open>
  One turn of the \<open>while True\<close>: the \<open>try\<close> with its handler (lines 69-75), which
  posts the error payload and breaks. An exception raised inside the handler leaves the
  function.
\<close>

datatype step = Again | Return | Raise exn

definition poll_iteration :: "env \<Rightarrow> int \<Rightarrow> string \<Rightarrow> history \<Rightarrow> step \<times> history" where
  "poll_iteration env task_id url h =
     (case poll_try env task_id url h of
        (Inr Continue, h1) \<Rightarrow> (Again, h1)
      | (Inr Break, h1) \<Rightarrow> (Return, h1)
      | (Inl e, h1) \<Rightarrow>
          (case post env url (error_payload task_id (str env e)) h1 of
             (Some e', h2) \<Rightarrow> (Raise e', h2)
           | (None, h2) \<Rightarrow> (Return, h2)))"

text \<open>
  The loop. It has no bound: the result is \<open>None\<close> when it never returns, and
  \<open>Some (r, h)\<close> when it ends with history \<open>h\<close>, normally (\<open>r = None\<close>) or by
  raising \<open>e\<close> (\<open>r = Some e\<close>).
\<close>

partial_function (option) poll_and_notify ::
  "env \<Rightarrow> int \<Rightarrow> string \<Rightarrow> history \<Rightarrow> (exn option \<times> history) option" where
  "poll_and_notify env task_id url h =
     (case poll_iteration env task_id url h of
        (Again, h1) \<Rightarrow> poll_and_notify env task_id url h1
      | (Return, h1) \<Rightarrow> Some (None, h1)
      | (Raise e, h1) \<Rightarrow> Some (Some e, h1))"

section \<open>\<open>create_video\<close>\<close>

text \<open>Lines 88-102: the suffix of the temporary file.\<close>

definition extension_of :: "env \<Rightarrow> response \<Rightarrow> string \<Rightarrow> string" where
  "extension_of env resp url =
     (let content_type = (case headers resp ''content-type'' of None \<Rightarrow> [] | Some v \<Rightarrow> v) in
      if str_in ''image/jpeg'' content_type then ''.jpg''
      else if str_in ''image/png'' content_type then ''.png''
      else if str_in ''image/gif'' content_type then ''.gif''
      else if str_in ''image/webp'' content_type then ''.webp''
      else (let path = urlparse_path env url; ext = splitext_ext env path in
            if ext \<noteq> [] then ext else ''.jpg''))"

text \<open>
  Lines 83-108: the download. The result is the request as the rest of the function sees
  it, or the exception that left the block.
\<close>

definition download_image :: "env \<Rightarrow> VideoRequest \<Rightarrow> history \<Rightarrow> (exn + VideoRequest) \<times> history" where
  "download_image env request h =
     (case image_url request of
        None \<Rightarrow> (Inr request, h)
      | Some url \<Rightarrow>
          if url = [] then (Inr request, h)
          else
            (let h1 = h @ [ClientGet url] in
             case client_get env h url of
               Inl e \<Rightarrow> (Inl e, h1)
             | Inr resp \<Rightarrow>
                 (case raise_for_status env resp of
                    Some e \<Rightarrow> (Inl e, h1)
                  | None \<Rightarrow>
                      (let extension = extension_of env resp url in
                       case NamedTemporaryFile env h1 extension of
                         Inl e \<Rightarrow> (Inl e, h1)
                       | Inr stem \<Rightarrow>
                           (let name = stem @ extension;
                                h2 = h1 @ [TempFileCreated name];
                                h3 = h2 @ [TempFileWrite name (content resp)] in
                            case temp_write env h2 name (content resp) of
                              Some e \<Rightarrow> (Inl e, h3)
                            | None \<Rightarrow>
                                (Inr (request\<lparr>image_path := Some name, image_url := None\<rparr>),
                                 h3))))))"

text \<open>The \<open>finally\<close> of lines 124-127.\<close>

definition cleanup :: "env \<Rightarrow> VideoRequest \<Rightarrow> history \<Rightarrow> exn option \<times> history" where
  "cleanup env request h =
     (case image_path request of
        None \<Rightarrow> (None, h)
      | Some p \<Rightarrow>
          if p \<noteq> [] \<and> image_url request = None
          then (os_remove env h p, h @ [OsRemove p])
          else (None, h))"

text \<open>
  Lines 110-127: the submission, its handler and the \<open>finally\<close>. An exception raised
  by the \<open>finally\<close> replaces the one in flight.
\<close>

definition get_video_kwargs :: "VideoRequest \<Rightarrow> get_video_args" where
  "get_video_kwargs request =
     \<lparr>kw_prompt = prompt request, kw_image_url = None,
      kw_image_path = image_path request,
      kw_is_high_quality = is_high_quality request,
      kw_model_name = model_name request, kw_return_task_only = True\<rparr>"

definition submit :: "env \<Rightarrow> VideoRequest \<Rightarrow> history \<Rightarrow> (exn + int) \<times> history" where
  "submit env request h =
     (let args = get_video_kwargs request;
          h1 = h @ [GetVideo args] in
      case get_video env h args of
        Inl e \<Rightarrow>
          (case cleanup env request h1 of
             (Some e', h2) \<Rightarrow> (Inl e', h2)
           | (None, h2) \<Rightarrow> (Inl (HTTPException 400 (str env e)), h2))
      | Inr task_id \<Rightarrow>
          (case cleanup env request h1 of
             (Some e', h2) \<Rightarrow> (Inl e', h2)
           | (None, h2) \<Rightarrow> (Inr task_id, h2)))"

text \<open>
  The whole handler. The result is the response (the task id, or the
  \<open>HTTPException\<close> of line 136), the background tasks it has scheduled (task id and
  webhook URL of each \<open>poll_and_notify\<close>) and the history.
\<close>

definition create_video ::
  "env \<Rightarrow> VideoRequest \<Rightarrow> history \<Rightarrow> (exn + int) \<times> (int \<times> string) list \<times> history" where
  "create_video env request h =
     (case download_image env request h of
        (Inl e, h1) \<Rightarrow> (Inl (HTTPException 400 (str env e)), [], h1)
      | (Inr request1, h1) \<Rightarrow>
          (case submit env request1 h1 of
             (Inl e, h2) \<Rightarrow> (Inl (HTTPException 400 (str env e)), [], h2)
           | (Inr task_id, h2) \<Rightarrow>
               (Inr task_id,
                (case webhook_url request1 of
                   None \<Rightarrow> []
                 | Some url \<Rightarrow> if url \<noteq> [] then [(task_id, url)] else []),
                h2)))"

section \<open>\<open>get_video_status\<close>\<close>

definition get_video_status :: "env \<Rightarrow> string \<Rightarrow> history \<Rightarrow> (exn + payload) \<times> history" where
  "get_video_status env task_id h =
     (let h1 = h @ [FetchMetadata (StrId task_id)] in
      case fetch_metadata env h (StrId task_id) of
        Inl e \<Rightarrow> (Inl (HTTPException 400 (str env e)), h1)
      | Inr (data, status) \<Rightarrow>
          (case (if status = COMPLETED
                 then collect_video_urls env (get_works data) [] h1
                 else (Inr [], h1)) of
             (Inl e, h2) \<Rightarrow> (Inl (HTTPException 400 (str env e)), h2)
           | (Inr video_urls, h2) \<Rightarrow>
               (Inr [(''task_id'', JStr task_id), (''status'', JStr (name_lower status)),
                     (''video_urls'', JList (map JStr video_urls))], h2)))"

section \<open>Reading a history\<close>

definition is_post :: "event \<Rightarrow> bool" where
  "is_post e = (case e of ClientPost _ _ \<Rightarrow> True | _ \<Rightarrow> False)"

definition is_poll :: "event \<Rightarrow> bool" where
  "is_poll e = (case e of FetchMetadata _ \<Rightarrow> True | _ \<Rightarrow> False)"

definition is_sleep :: "event \<Rightarrow> bool" where
  "is_sleep e = (case e of Sleep _ \<Rightarrow> True | _ \<Rightarrow> False)"

text \<open>What \<open>k\<close> polls that all saw PENDING add to the history.\<close>

definition pending_history :: "int \<Rightarrow> nat \<Rightarrow> history" where
  "pending_history t k = concat (replicate k [FetchMetadata (IntId t), Sleep 5])"

text \<open>
  The resources that the loop over the works keeps, given what each lookup returned:
  those that are neither \<open>None\<close> nor empty, in the order of the lookups.
\<close>

fun kept :: "string option list \<Rightarrow> string list" where
  "kept [] = []"
| "kept (None # rs) = kept rs"
| "kept (Some r # rs) = (if r \<noteq> [] then r # kept rs else kept rs)"

text \<open>
  What can follow the first POST of a run, made with body \<open>p\<close> at history \<open>h0\<close>:
  nothing when it returned; when it raised, nothing (it was the handler's own POST) or
  the handler's POST of the error payload.
\<close>

definition ending :: "env \<Rightarrow> int \<Rightarrow> string \<Rightarrow> history \<Rightarrow> payload \<Rightarrow> history \<Rightarrow> bool" where
  "ending env t u h0 p rest =
     (case client_post env h0 u p of
        None \<Rightarrow> rest = []
      | Some e \<Rightarrow> rest = [] \<or> rest = [ClientPost u (error_payload t (str env e))])"

text \<open>
  The first \<open>n\<close> turns of the \<open>while True\<close> of \<open>poll_and_notify\<close>: \<open>Again\<close> when
  the loop is still running after them, with the history so far.
\<close>

fun poll_for :: "nat \<Rightarrow> env \<Rightarrow> int \<Rightarrow> string \<Rightarrow> history \<Rightarrow> step \<times> history" where
  "poll_for 0 env task_id url h = (Again, h)"
| "poll_for (Suc n) env task_id url h =
     (case poll_iteration env task_id url h of
        (Again, h1) \<Rightarrow> poll_for n env task_id url h1
      | (Return, h1) \<Rightarrow> (Return, h1)
      | (Raise e, h1) \<Rightarrow> (Raise e, h1))"

section \<open>The extension rule in the words of the specification\<close>

text \<open>
  The specification's rule for the extension of a fetched image: a table from known
  content types to extensions, tried in order; then the extension of the URL's path;
  then \<open>.jpg\<close>. A content type is recognised when it contains the table's entry.
\<close>

definition content_type_table :: "(string \<times> string) list" where
  "content_type_table =
     [(''image/jpeg'', ''.jpg''), (''image/png'', ''.png''),
      (''image/gif'', ''.gif''), (''image/webp'', ''.webp'')]"

definition spec_extension :: "env \<Rightarrow> string option \<Rightarrow> string \<Rightarrow> string" where
  "spec_extension env content_type url =
     (case find (\<lambda>(known, ext). str_in known (case content_type of None \<Rightarrow> [] | Some v \<Rightarrow> v))
             content_type_table of
        Some (known, ext) \<Rightarrow> ext
      | None \<Rightarrow>
          (case splitext_ext env (urlparse_path env url) of
             [] \<Rightarrow> ''.jpg''
           | c # cs \<Rightarrow> c # cs))"

section \<open>Example environments and requests\<close>

text \<open>
  An environment in which every call succeeds: the image server answers a PNG, the
  provider accepts every submission as task 7 and reports PENDING for ever, every lookup
  answers no resource, the webhook accepts every POST. The only \<open>HTTPException\<close> that
  \<open>api.py\<close> raises has code 400, and its \<open>str\<close> is the code, a colon and the detail.
\<close>

definition png_response :: response where
  "png_response =
     \<lparr>status_code = 200, headers = [''content-type'' \<mapsto> ''image/png''], content = ''PNG''\<rparr>"

definition base_env :: env where
  "base_env =
     \<lparr>client_get = (\<lambda>h url. Inr png_response),
      raise_for_status = (\<lambda>r. None),
      urlparse_path = (\<lambda>url. url),
      splitext_ext = (\<lambda>p. []),
      NamedTemporaryFile = (\<lambda>h suffix. Inr ''/tmp/tmpa1''),
      temp_write = (\<lambda>h name c. None),
      get_video = (\<lambda>h args. Inr 7),
      os_remove = (\<lambda>h p. None),
      fetch_metadata = (\<lambda>h t. Inr (Map.empty, PENDING)),
      fetch_video_url = (\<lambda>h w. Inr (None, FAILED)),
      client_post = (\<lambda>h url body. None),
      str_HTTPException = (\<lambda>c d. ''400: '' @ d)\<rparr>"

text \<open>The provider's answers to successive polls, read off a list; PENDING after its end.\<close>

definition answer_at ::
  "(exn + metadata \<times> TaskStatus) list \<Rightarrow> history \<Rightarrow> exn + metadata \<times> TaskStatus" where
  "answer_at script h =
     (case drop (length (filter is_poll h)) script of
        [] \<Rightarrow> Inr (Map.empty, PENDING)
      | a # _ \<Rightarrow> a)"

definition scripted_env :: "(exn + metadata \<times> TaskStatus) list \<Rightarrow> env" where
  "scripted_env script = base_env\<lparr>fetch_metadata := (\<lambda>h t. answer_at script h)\<rparr>"

text \<open>Metadata with three works, numbered 1, 2 and 3.\<close>

definition three_works :: metadata where
  "three_works = [''works'' \<mapsto> [[''workId'' \<mapsto> 1], [''workId'' \<mapsto> 2], [''workId'' \<mapsto> 3]]]"

text \<open>Lookups for works 1 and 3 answer a URL; the lookup for work 2 answers no resource.\<close>

definition second_empty_env :: env where
  "second_empty_env =
     (scripted_env [Inr (three_works, COMPLETED)])
       \<lparr>fetch_video_url := (\<lambda>h w.
           if w = 1 then Inr (Some ''http://cdn/1.mp4'', COMPLETED)
           else if w = 2 then Inr (None, FAILED)
           else Inr (Some ''http://cdn/3.mp4'', COMPLETED))\<rparr>"

text \<open>The same, but the lookup for work 2 raises.\<close>

definition second_raises_env :: env where
  "second_raises_env =
     (scripted_env [Inr (three_works, COMPLETED)])
       \<lparr>fetch_video_url := (\<lambda>h w.
           if w = 1 then Inr (Some ''http://cdn/1.mp4'', COMPLETED)
           else if w = 2 then Inl (Exn ''lookup failed'')
           else Inr (Some ''http://cdn/3.mp4'', COMPLETED))\<rparr>"

text \<open>The provider reports FAILED; the webhook's first POST raises, later ones return.\<close>

definition first_post_raises_env :: env where
  "first_post_raises_env =
     (scripted_env [Inr (Map.empty, FAILED)])
       \<lparr>client_post := (\<lambda>h url body.
           if filter is_post h = [] then Some (Exn ''connection reset'') else None)\<rparr>"

text \<open>Writing the downloaded image to the temporary file raises.\<close>

definition write_raises_env :: env where
  "write_raises_env =
     base_env\<lparr>temp_write := (\<lambda>h name c. Some (Exn ''No space left on device''))\<rparr>"

text \<open>The provider rejects every submission.\<close>

definition rejecting_env :: env where
  "rejecting_env = base_env\<lparr>get_video := (\<lambda>h args. Inl (Exn ''rejected''))\<rparr>"

text \<open>Two polls see PENDING, the third sees COMPLETED with the three works.\<close>

definition pending_twice_env :: env where
  "pending_twice_env =
     second_empty_env\<lparr>fetch_metadata := (\<lambda>h t.
        answer_at [Inr (Map.empty, PENDING), Inr (Map.empty, PENDING),
                   Inr (three_works, COMPLETED)] h)\<rparr>"

text \<open>One poll sees PENDING, the next raises.\<close>

definition timeout_env :: env where
  "timeout_env = scripted_env [Inr (Map.empty, PENDING), Inl (Exn ''timed out'')]"

text \<open>One poll sees PENDING, the next sees FAILED.\<close>

definition failed_env :: env where
  "failed_env = scripted_env [Inr (Map.empty, PENDING), Inr (Map.empty, FAILED)]"

text \<open>Metadata with three works of which the second has no \<open>workId\<close>.\<close>

definition second_unnamed_works :: metadata where
  "second_unnamed_works =
     [''works'' \<mapsto> [[''workId'' \<mapsto> 1], Map.empty, [''workId'' \<mapsto> 3]]]"

definition second_unnamed_env :: env where
  "second_unnamed_env =
     second_empty_env\<lparr>fetch_metadata := (\<lambda>h t. Inr (second_unnamed_works, COMPLETED))\<rparr>"

text \<open>The poll raises, and so does every POST to the webhook.\<close>

definition hook_down_env :: env where
  "hook_down_env =
     (scripted_env [Inl (Exn ''timed out'')])
       \<lparr>client_post := (\<lambda>h url body. Some (Exn ''connection refused''))\<rparr>"

definition plain_request :: VideoRequest where
  "plain_request =
     \<lparr>prompt = ''a cat'', image_url = None, image_path = None, is_high_quality = True,
      auto_extend = False, model_name = ''1.5'', webhook_url = None\<rparr>"

section \<open>Lemmas\<close>

lemma collect_history:
  "collect_video_urls env ws urls h = (res, h2) \<Longrightarrow> \<exists>ids. h2 = h @ map FetchVideoUrl ids"
proof (induction ws arbitrary: urls h)
  case Nil
  then show ?case by simp
next
  case (Cons w ws)
  show ?case
  proof (cases "w ''workId''")
    case None
    with Cons.prems show ?thesis by simp
  next
    case (Some wid)
    show ?thesis
    proof (cases "fetch_video_url env h wid")
      case (Inl e)
      with Some Cons.prems have "h2 = h @ map FetchVideoUrl [wid]" by auto
      then show ?thesis by blast
    next
      case (Inr p)
      obtain resource st where p: "p = (resource, st)" by (cases p)
      from Cons.prems Some Inr p obtain urls' where
        "collect_video_urls env ws urls' (h @ [FetchVideoUrl wid]) = (res, h2)"
        by auto
      from Cons.IH [OF this] obtain ids where "h2 = (h @ [FetchVideoUrl wid]) @ map FetchVideoUrl ids"
        by blast
      then have "h2 = h @ map FetchVideoUrl (wid # ids)" by simp
      then show ?thesis by blast
    qed
  qed
qed

lemma collect_all_return:
  "map (\<lambda>w. w ''workId'') ws = map Some ids \<Longrightarrow> length rs = length ids \<Longrightarrow>
   (\<forall>i<length ids. \<exists>st. fetch_video_url env (h @ map FetchVideoUrl (take i ids)) (ids ! i) = Inr (rs ! i, st)) \<Longrightarrow>
   collect_video_urls env ws urls h = (Inr (urls @ kept rs), h @ map FetchVideoUrl ids)"
proof (induction ws arbitrary: ids rs urls h)
  case Nil
  then show ?case by simp
next
  case (Cons w ws)
  from Cons.prems(1) obtain wid ids' where ids: "ids = wid # ids'" and w: "w ''workId'' = Some wid"
    and ws: "map (\<lambda>w. w ''workId'') ws = map Some ids'"
    by (cases ids) auto
  from Cons.prems(2) ids obtain r rs' where rs: "rs = r # rs'" and len: "length rs' = length ids'"
    by (cases rs) auto
  from Cons.prems(3) [rule_format, of 0] ids rs obtain st where
    first: "fetch_video_url env h wid = Inr (r, st)" by auto
  have rest: "\<forall>i<length ids'. \<exists>st. fetch_video_url env ((h @ [FetchVideoUrl wid]) @ map FetchVideoUrl (take i ids')) (ids' ! i) = Inr (rs' ! i, st)"
  proof (intro allI impI)
    fix i assume "i < length ids'"
    with Cons.prems(3) [rule_format, of "Suc i"] ids rs show
      "\<exists>st. fetch_video_url env ((h @ [FetchVideoUrl wid]) @ map FetchVideoUrl (take i ids')) (ids' ! i) = Inr (rs' ! i, st)"
      by simp
  qed
  note IH = Cons.IH [OF ws len rest]
  show ?case
  proof (cases r)
    case None
    with w first IH [of urls] ids rs show ?thesis by simp
  next
    case (Some s)
    with w first IH [of urls] IH [of "urls @ [s]"] ids rs show ?thesis by simp
  qed
qed

lemma poll_and_notify_Again:
  "poll_iteration env t u h = (Again, h1) \<Longrightarrow> poll_and_notify env t u h = poll_and_notify env t u h1"
  by (subst poll_and_notify.simps) simp

lemma poll_and_notify_Return:
  "poll_iteration env t u h = (Return, h1) \<Longrightarrow> poll_and_notify env t u h = Some (None, h1)"
  by (subst poll_and_notify.simps) simp

lemma poll_and_notify_Raise:
  "poll_iteration env t u h = (Raise e, h1) \<Longrightarrow> poll_and_notify env t u h = Some (Some e, h1)"
  by (subst poll_and_notify.simps) simp

lemma poll_iteration_pending:
  "fetch_metadata env h (IntId t) = Inr (d, PENDING) \<Longrightarrow>
   poll_iteration env t u h = (Again, h @ [FetchMetadata (IntId t), Sleep 5])"
  by (simp add: poll_iteration_def poll_try_def)


lemma not_done_pending: "s \<noteq> COMPLETED \<Longrightarrow> s \<noteq> FAILED \<Longrightarrow> s = PENDING"
  by (cases s) auto

lemma poll_iteration_Again:
  "poll_iteration env t u h = (Again, h1) \<Longrightarrow>
   (\<exists>d. fetch_metadata env h (IntId t) = Inr (d, PENDING)) \<and> h1 = h @ [FetchMetadata (IntId t), Sleep 5]"
  by (auto simp: poll_iteration_def poll_try_def post_def Let_def intro: not_done_pending
        split: sum.splits prod.splits if_splits option.splits ctl.splits)

text \<open>What the handler of the try does with an exception raised at history h1.\<close>

lemma poll_iteration_raise:
  "poll_try env t u h = (Inl e, h1) \<Longrightarrow>
   poll_iteration env t u h =
     ((case client_post env h1 u (error_payload t (str env e)) of None \<Rightarrow> Return | Some e' \<Rightarrow> Raise e'),
      h1 @ [ClientPost u (error_payload t (str env e))])"
  by (simp add: poll_iteration_def post_def split: option.splits)

lemma poll_try_fetch_raises:
  "fetch_metadata env h (IntId t) = Inl e \<Longrightarrow> poll_try env t u h = (Inl e, h @ [FetchMetadata (IntId t)])"
  by (simp add: poll_try_def)

lemma poll_try_failed:
  "fetch_metadata env h (IntId t) = Inr (d, FAILED) \<Longrightarrow>
   poll_try env t u h =
     ((case client_post env (h @ [FetchMetadata (IntId t)]) u (failed_payload t) of
         None \<Rightarrow> Inr Break | Some e \<Rightarrow> Inl e),
      h @ [FetchMetadata (IntId t), ClientPost u (failed_payload t)])"
  by (simp add: poll_try_def post_def split: option.splits)

lemma poll_try_completed:
  "fetch_metadata env h (IntId t) = Inr (d, COMPLETED) \<Longrightarrow>
   collect_video_urls env (get_works d) [] (h @ [FetchMetadata (IntId t)]) = (Inr urls, h2) \<Longrightarrow>
   poll_try env t u h =
     ((case client_post env h2 u (completed_payload t urls) of
         None \<Rightarrow> Inr Break | Some e \<Rightarrow> Inl e),
      h2 @ [ClientPost u (completed_payload t urls)])"
  by (simp add: poll_try_def post_def split: option.splits)

lemma poll_try_completed_raises:
  "fetch_metadata env h (IntId t) = Inr (d, COMPLETED) \<Longrightarrow>
   collect_video_urls env (get_works d) [] (h @ [FetchMetadata (IntId t)]) = (Inl e, h2) \<Longrightarrow>
   poll_try env t u h = (Inl e, h2)"
  by (simp add: poll_try_def)

lemma poll_iteration_done:
  assumes "poll_iteration env t u h = (s, h1)" and "s \<noteq> Again"
  shows "\<exists>ids p rest. h1 = h @ FetchMetadata (IntId t) # map FetchVideoUrl ids @ ClientPost u p # rest
           \<and> ending env t u (h @ FetchMetadata (IntId t) # map FetchVideoUrl ids) p rest"
proof (cases "fetch_metadata env h (IntId t)")
  case (Inl e)
  from poll_iteration_raise [OF poll_try_fetch_raises [OF Inl]] assms(1)
  have "h1 = h @ FetchMetadata (IntId t) # map FetchVideoUrl [] @ ClientPost u (error_payload t (str env e)) # []"
    by simp
  moreover have "ending env t u (h @ FetchMetadata (IntId t) # map FetchVideoUrl []) (error_payload t (str env e)) []"
    by (simp add: ending_def split: option.splits)
  ultimately show ?thesis by blast
next
  case (Inr p)
  obtain d st where p: "p = (d, st)" by (cases p)
  show ?thesis
  proof (cases st)
    case PENDING
    with Inr p assms show ?thesis by (simp add: poll_iteration_pending)
  next
    case FAILED
    let ?h0 = "h @ [FetchMetadata (IntId t)]"
    note pt = poll_try_failed [OF Inr [unfolded p FAILED], of u]
    show ?thesis
    proof (cases "client_post env ?h0 u (failed_payload t)")
      case None
      with pt assms(1) have "h1 = h @ FetchMetadata (IntId t) # map FetchVideoUrl [] @ ClientPost u (failed_payload t) # []"
        by (simp add: poll_iteration_def)
      moreover from None have "ending env t u (h @ FetchMetadata (IntId t) # map FetchVideoUrl []) (failed_payload t) []"
        by (simp add: ending_def)
      ultimately show ?thesis by blast
    next
      case (Some e)
      with pt have "poll_try env t u h = (Inl e, h @ [FetchMetadata (IntId t), ClientPost u (failed_payload t)])"
        by simp
      from poll_iteration_raise [OF this] assms(1)
      have "h1 = h @ FetchMetadata (IntId t) # map FetchVideoUrl [] @ ClientPost u (failed_payload t) # [ClientPost u (error_payload t (str env e))]"
        by simp
      moreover from Some have "ending env t u (h @ FetchMetadata (IntId t) # map FetchVideoUrl []) (failed_payload t) [ClientPost u (error_payload t (str env e))]"
        by (simp add: ending_def)
      ultimately show ?thesis by blast
    qed
  next
    case COMPLETED
    let ?h0 = "h @ [FetchMetadata (IntId t)]"
    obtain res h2 where c: "collect_video_urls env (get_works d) [] ?h0 = (res, h2)"
      by (cases "collect_video_urls env (get_works d) [] ?h0")
    from collect_history [OF c] obtain ids where h2: "h2 = h @ FetchMetadata (IntId t) # map FetchVideoUrl ids"
      by auto
    show ?thesis
    proof (cases res)
      case (Inl e)
      from poll_iteration_raise [OF poll_try_completed_raises [OF Inr [unfolded p COMPLETED] c [unfolded Inl]]] assms(1)
      have "h1 = h2 @ [ClientPost u (error_payload t (str env e))]" by simp
      with h2 have "h1 = h @ FetchMetadata (IntId t) # map FetchVideoUrl ids @ ClientPost u (error_payload t (str env e)) # []"
        by simp
      moreover have "ending env t u (h @ FetchMetadata (IntId t) # map FetchVideoUrl ids) (error_payload t (str env e)) []"
        by (simp add: ending_def split: option.splits)
      ultimately show ?thesis by blast
    next
      case (Inr urls)
      note pt = poll_try_completed [OF \<open>fetch_metadata env h (IntId t) = Inr p\<close> [unfolded p COMPLETED] c [unfolded Inr], of u]
      show ?thesis
      proof (cases "client_post env h2 u (completed_payload t urls)")
        case None
        with pt assms(1) have "h1 = h2 @ [ClientPost u (completed_payload t urls)]"
          by (simp add: poll_iteration_def)
        with h2 have "h1 = h @ FetchMetadata (IntId t) # map FetchVideoUrl ids @ ClientPost u (completed_payload t urls) # []"
          by simp
        moreover from None h2 have "ending env t u (h @ FetchMetadata (IntId t) # map FetchVideoUrl ids) (completed_payload t urls) []"
          by (simp add: ending_def)
        ultimately show ?thesis by blast
      next
        case (Some e)
        with pt have "poll_try env t u h = (Inl e, h2 @ [ClientPost u (completed_payload t urls)])"
          by simp
        from poll_iteration_raise [OF this] assms(1)
        have "h1 = h2 @ [ClientPost u (completed_payload t urls), ClientPost u (error_payload t (str env e))]"
          by simp
        with h2 have "h1 = h @ FetchMetadata (IntId t) # map FetchVideoUrl ids @ ClientPost u (completed_payload t urls) # [ClientPost u (error_payload t (str env e))]"
          by simp
        moreover from Some h2 have "ending env t u (h @ FetchMetadata (IntId t) # map FetchVideoUrl ids) (completed_payload t urls) [ClientPost u (error_payload t (str env e))]"
          by (simp add: ending_def)
        ultimately show ?thesis by blast
      qed
    qed
  qed
qed


lemma pending_history_0: "pending_history t 0 = []"
  by (simp add: pending_history_def)

lemma pending_history_Suc:
  "pending_history t (Suc k) = FetchMetadata (IntId t) # Sleep 5 # pending_history t k"
  by (simp add: pending_history_def)

lemma poll_and_notify_shape:
  assumes "poll_and_notify env t u h = Some y"
  shows "\<exists>k ids p rest.
     snd y = h @ pending_history t k @ FetchMetadata (IntId t) # map FetchVideoUrl ids @ ClientPost u p # rest
     \<and> ending env t u (h @ pending_history t k @ FetchMetadata (IntId t) # map FetchVideoUrl ids) p rest"
proof (rule poll_and_notify.raw_induct
    [where P = "\<lambda>env t u h y. \<exists>k ids p rest.
       snd y = h @ pending_history t k @ FetchMetadata (IntId t) # map FetchVideoUrl ids @ ClientPost u p # rest
       \<and> ending env t u (h @ pending_history t k @ FetchMetadata (IntId t) # map FetchVideoUrl ids) p rest",
     OF _ assms])
  fix poll env t u h y
  assume IH: "\<And>env t u h y. poll env t u h = Some y \<Longrightarrow> \<exists>k ids p rest.
       snd y = h @ pending_history t k @ FetchMetadata (IntId t) # map FetchVideoUrl ids @ ClientPost u p # rest
       \<and> ending env t u (h @ pending_history t k @ FetchMetadata (IntId t) # map FetchVideoUrl ids) p rest"
    and body: "(case poll_iteration env t u h of
        (Again, h1) \<Rightarrow> poll env t u h1
      | (Return, h1) \<Rightarrow> Some (None, h1)
      | (Raise e, h1) \<Rightarrow> Some (Some e, h1)) = Some y"
  obtain s h1 where it: "poll_iteration env t u h = (s, h1)"
    by (cases "poll_iteration env t u h")
  show "\<exists>k ids p rest.
       snd y = h @ pending_history t k @ FetchMetadata (IntId t) # map FetchVideoUrl ids @ ClientPost u p # rest
       \<and> ending env t u (h @ pending_history t k @ FetchMetadata (IntId t) # map FetchVideoUrl ids) p rest"
  proof (cases "s = Again")
    case True
    with it body have "poll env t u h1 = Some y" by simp
    from IH [OF this] obtain k ids p rest where
      y: "snd y = h1 @ pending_history t k @ FetchMetadata (IntId t) # map FetchVideoUrl ids @ ClientPost u p # rest"
      and e: "ending env t u (h1 @ pending_history t k @ FetchMetadata (IntId t) # map FetchVideoUrl ids) p rest"
      by blast
    from poll_iteration_Again it True have h1: "h1 = h @ [FetchMetadata (IntId t), Sleep 5]" by blast
    from y h1 have "snd y = h @ pending_history t (Suc k) @ FetchMetadata (IntId t) # map FetchVideoUrl ids @ ClientPost u p # rest"
      by (simp add: pending_history_Suc)
    moreover from e h1 have "ending env t u (h @ pending_history t (Suc k) @ FetchMetadata (IntId t) # map FetchVideoUrl ids) p rest"
      by (simp add: pending_history_Suc)
    ultimately show ?thesis by blast
  next
    case False
    with it body have "snd y = h1" by (cases s) auto
    with poll_iteration_done [OF it False] obtain ids p rest where
      "snd y = h @ pending_history t 0 @ FetchMetadata (IntId t) # map FetchVideoUrl ids @ ClientPost u p # rest"
      "ending env t u (h @ pending_history t 0 @ FetchMetadata (IntId t) # map FetchVideoUrl ids) p rest"
      by (auto simp: pending_history_0)
    then show ?thesis by blast
  qed
qed

lemma poll_forever:
  assumes "\<forall>h'. \<exists>d. fetch_metadata env h' (IntId t) = Inr (d, PENDING)"
  shows "poll_and_notify env t u h = None"
proof (rule ccontr)
  assume "poll_and_notify env t u h \<noteq> None"
  then obtain y where y: "poll_and_notify env t u h = Some y" by auto
  have "\<not> (\<forall>h'. \<exists>d. fetch_metadata env h' (IntId t) = Inr (d, PENDING))"
  proof (rule poll_and_notify.raw_induct
      [where P = "\<lambda>env t u h y. \<not> (\<forall>h'. \<exists>d. fetch_metadata env h' (IntId t) = Inr (d, PENDING))",
       OF _ y])
    fix poll env t u h y
    assume IH: "\<And>env t u h y. poll env t u h = Some y \<Longrightarrow>
        \<not> (\<forall>h'. \<exists>d. fetch_metadata env h' (IntId t) = Inr (d, PENDING))"
      and body: "(case poll_iteration env t u h of
          (Again, h1) \<Rightarrow> poll env t u h1
        | (Return, h1) \<Rightarrow> Some (None, h1)
        | (Raise e, h1) \<Rightarrow> Some (Some e, h1)) = Some y"
    show "\<not> (\<forall>h'. \<exists>d. fetch_metadata env h' (IntId t) = Inr (d, PENDING))"
    proof
      assume a: "\<forall>h'. \<exists>d. fetch_metadata env h' (IntId t) = Inr (d, PENDING)"
      then obtain d where "fetch_metadata env h (IntId t) = Inr (d, PENDING)" by blast
      from poll_iteration_pending [OF this] body
      have "poll env t u (h @ [FetchMetadata (IntId t), Sleep 5]) = Some y" by simp
      from IH [OF this] a show False by blast
    qed
  qed
  with assms show False by blast
qed

lemma poll_after_pending:
  "(\<forall>i<k. \<exists>d. fetch_metadata env (h @ pending_history t i) (IntId t) = Inr (d, PENDING)) \<Longrightarrow>
   poll_and_notify env t u h = poll_and_notify env t u (h @ pending_history t k)"
proof (induction k arbitrary: h)
  case 0
  then show ?case by (simp add: pending_history_0)
next
  case (Suc k)
  from Suc.prems [rule_format, of 0] obtain d where "fetch_metadata env h (IntId t) = Inr (d, PENDING)"
    by (auto simp: pending_history_0)
  then have step: "poll_and_notify env t u h = poll_and_notify env t u (h @ [FetchMetadata (IntId t), Sleep 5])"
    by (simp add: poll_and_notify_Again poll_iteration_pending)
  have "\<forall>i<k. \<exists>d. fetch_metadata env ((h @ [FetchMetadata (IntId t), Sleep 5]) @ pending_history t i) (IntId t) = Inr (d, PENDING)"
  proof (intro allI impI)
    fix i assume "i < k"
    with Suc.prems [rule_format, of "Suc i"]
    show "\<exists>d. fetch_metadata env ((h @ [FetchMetadata (IntId t), Sleep 5]) @ pending_history t i) (IntId t) = Inr (d, PENDING)"
      by (simp add: pending_history_Suc)
  qed
  from Suc.IH [OF this] step show ?case by (simp add: pending_history_Suc)
qed


lemma extension_of_nonempty: "extension_of env resp url \<noteq> []"
  by (simp add: extension_of_def Let_def)

lemma download_image_skip:
  "\<not> truthy (image_url request) \<Longrightarrow> download_image env request h = (Inr request, h)"
  by (cases "image_url request") (simp_all add: download_image_def)

lemma download_image_Inr:
  assumes "truthy (image_url request)" and "download_image env request h = (Inr request1, h1)"
  shows "\<exists>url resp stem.
     image_url request = Some url \<and> client_get env h url = Inr resp
     \<and> request1 = request\<lparr>image_path := Some (stem @ extension_of env resp url), image_url := None\<rparr>
     \<and> h1 = h @ [ClientGet url, TempFileCreated (stem @ extension_of env resp url),
                  TempFileWrite (stem @ extension_of env resp url) (content resp)]"
proof -
  from assms(1) obtain url where url: "image_url request = Some url" "url \<noteq> []"
    by (cases "image_url request") auto
  from assms(2) url show ?thesis
    by (auto simp: download_image_def Let_def split: sum.splits option.splits)
qed

lemma download_image_no_submission:
  "download_image env request h = (res, h1) \<Longrightarrow>
   \<exists>evs. h1 = h @ evs \<and> filter is_post evs = [] \<and> (\<forall>a. GetVideo a \<notin> set evs)
     \<and> (\<forall>p. OsRemove p \<notin> set evs)"
  by (auto simp: download_image_def Let_def is_post_def split: sum.splits option.splits if_splits)

lemma cleanup_history:
  "snd (cleanup env request h) =
     h @ (case image_path request of
            None \<Rightarrow> []
          | Some p \<Rightarrow> if p \<noteq> [] \<and> image_url request = None then [OsRemove p] else [])"
  by (auto simp: cleanup_def split: option.splits)

lemma submit_history:
  "snd (submit env request h) =
     h @ GetVideo (get_video_kwargs request) #
       (case image_path request of
          None \<Rightarrow> []
        | Some p \<Rightarrow> if p \<noteq> [] \<and> image_url request = None then [OsRemove p] else [])"
  using cleanup_history [of env request "h @ [GetVideo (get_video_kwargs request)]"]
  by (auto simp: submit_def Let_def split: sum.splits prod.splits option.splits)

lemma create_video_history:
  "download_image env request h = (Inr request1, h1) \<Longrightarrow>
   snd (snd (create_video env request h)) = snd (submit env request1 h1)"
  by (simp add: create_video_def split: sum.splits prod.splits)

lemma create_video_tasks:
  "create_video env request h = (r, tasks, h') \<Longrightarrow> webhook_url request = None \<Longrightarrow> tasks = []"
  by (auto simp: create_video_def download_image_def Let_def split: sum.splits prod.splits option.splits if_splits)

lemma poll_and_notify_done:
  "poll_iteration env t u h = (s, h1) \<Longrightarrow> s \<noteq> Again \<Longrightarrow>
   poll_and_notify env t u h = Some (case s of Raise e \<Rightarrow> Some e | _ \<Rightarrow> None, h1)"
  by (cases s) (simp_all add: poll_and_notify_Return poll_and_notify_Raise)

lemma poll_terminates:
  assumes "\<forall>i<k. \<exists>d. fetch_metadata env (h @ pending_history t i) (IntId t) = Inr (d, PENDING)"
    and "\<not> (\<exists>d. fetch_metadata env (h @ pending_history t k) (IntId t) = Inr (d, PENDING))"
  shows "poll_and_notify env t u h \<noteq> None"
proof -
  obtain s h1 where it: "poll_iteration env t u (h @ pending_history t k) = (s, h1)"
    by (cases "poll_iteration env t u (h @ pending_history t k)")
  with assms(2) poll_iteration_Again [of env t u "h @ pending_history t k" h1]
  have "s \<noteq> Again" by blast
  from poll_and_notify_done [OF it this] poll_after_pending [OF assms(1), of u]
  show ?thesis by simp
qed

lemma no_post_pending_history: "filter is_post (pending_history t k) = []"
  by (induction k) (simp_all add: pending_history_0 pending_history_Suc is_post_def)

lemma no_post_lookups: "filter is_post (map FetchVideoUrl ids) = []"
  by (induction ids) (simp_all add: is_post_def)

lemma no_sleep_lookups: "filter is_sleep (map FetchVideoUrl ids) = []"
  by (induction ids) (simp_all add: is_sleep_def)

lemma ending_cases:
  "ending env t u h0 p rest \<Longrightarrow>
   filter is_poll rest = [] \<and> (client_post env h0 u p = None \<longrightarrow> rest = [])
   \<and> (rest \<noteq> [] \<longrightarrow> (\<exists>e. client_post env h0 u p = Some e
          \<and> rest = [ClientPost u (error_payload t (str env e))]))"
  by (auto simp: ending_def is_poll_def split: option.splits)

lemma poll_and_notify_posts:
  assumes "poll_and_notify env t u h = Some (r, h')"
  shows "\<exists>before p rest.
     h' = h @ before @ ClientPost u p # rest
     \<and> filter is_post before = [] \<and> filter is_poll rest = []
     \<and> (client_post env (h @ before) u p = None \<longrightarrow> rest = [])
     \<and> (rest \<noteq> [] \<longrightarrow> (\<exists>e. client_post env (h @ before) u p = Some e
            \<and> rest = [ClientPost u (error_payload t (str env e))]))"
proof -
  from poll_and_notify_shape [OF assms] obtain k ids p rest where
    h': "h' = h @ pending_history t k @ FetchMetadata (IntId t) # map FetchVideoUrl ids @ ClientPost u p # rest"
    and e: "ending env t u (h @ pending_history t k @ FetchMetadata (IntId t) # map FetchVideoUrl ids) p rest"
    by auto
  define before where "before = pending_history t k @ FetchMetadata (IntId t) # map FetchVideoUrl ids"
  have a: "h' = h @ before @ ClientPost u p # rest"
    unfolding before_def using h' by simp
  have b: "filter is_post before = []"
    unfolding before_def by (simp add: no_post_pending_history no_post_lookups is_post_def)
  have e': "ending env t u (h @ before) p rest"
    unfolding before_def using e by simp
  note c = ending_cases [OF e']
  show ?thesis
    apply (rule exI [of _ before])
    apply (rule exI [of _ p])
    apply (rule exI [of _ rest])
    using a b c apply blast
    done
qed

lemma create_video_no_post:
  assumes "create_video env request h = (r, tasks, h')"
  shows "filter is_post h' = filter is_post h"
proof -
  obtain res h1 where d: "download_image env request h = (res, h1)"
    by (cases "download_image env request h")
  from download_image_no_submission [OF d] have h1: "filter is_post h1 = filter is_post h"
    by auto
  show ?thesis
  proof (cases res)
    case (Inl e)
    with d assms have "h' = h1" by (simp add: create_video_def)
    with h1 show ?thesis by simp
  next
    case (Inr request1)
    with d have "snd (snd (create_video env request h)) = snd (submit env request1 h1)"
      by (simp add: create_video_history)
    with assms have "h' = snd (submit env request1 h1)" by simp
    with h1 show ?thesis
      by (simp add: submit_history is_post_def split: option.splits)
  qed
qed

section \<open>Properties\<close>

text \<open>
  C8. The extension of a fetched image is the one the specification's rule gives: the
  first entry of the content-type table that the \<open>content-type\<close> header contains
  (\<open>image/jpeg\<close> gives \<open>.jpg\<close>, \<open>image/png\<close> gives \<open>.png\<close>, \<open>image/gif\<close> gives
  \<open>.gif\<close>, \<open>image/webp\<close> gives \<open>.webp\<close>); when the header is absent or contains
  none of them, the extension of the URL's path; when that is empty, \<open>.jpg\<close>.
\<close>

theorem extension_order:
  "extension_of env resp url = spec_extension env (headers resp ''content-type'') url
   \<and> (headers resp ''content-type'' = Some ''image/jpeg'' \<longrightarrow> extension_of env resp url = ''.jpg'')
   \<and> (headers resp ''content-type'' = Some ''image/png'' \<longrightarrow> extension_of env resp url = ''.png'')
   \<and> (headers resp ''content-type'' = Some ''image/gif'' \<longrightarrow> extension_of env resp url = ''.gif'')
   \<and> (headers resp ''content-type'' = Some ''image/webp'' \<longrightarrow> extension_of env resp url = ''.webp'')
   \<and> (headers resp ''content-type'' = None \<longrightarrow>
        extension_of env resp url =
          (if splitext_ext env (urlparse_path env url) = [] then ''.jpg''
           else splitext_ext env (urlparse_path env url)))"
proof -
  have a: "extension_of env resp url = spec_extension env (headers resp ''content-type'') url"
    by (simp add: extension_of_def spec_extension_def content_type_table_def Let_def
          split: list.splits)
  have j: "headers resp ''content-type'' = Some ''image/jpeg'' \<Longrightarrow> extension_of env resp url = ''.jpg''"
    by (simp add: extension_of_def str_in_def)
  have p: "headers resp ''content-type'' = Some ''image/png'' \<Longrightarrow> extension_of env resp url = ''.png''"
    by (simp add: extension_of_def str_in_def sublist_code(3))
  have g: "headers resp ''content-type'' = Some ''image/gif'' \<Longrightarrow> extension_of env resp url = ''.gif''"
    by (simp add: extension_of_def str_in_def sublist_code(3))
  have w: "headers resp ''content-type'' = Some ''image/webp'' \<Longrightarrow> extension_of env resp url = ''.webp''"
    by (simp add: extension_of_def str_in_def sublist_code(3))
  have n: "headers resp ''content-type'' = None \<Longrightarrow>
        extension_of env resp url =
          (if splitext_ext env (urlparse_path env url) = [] then ''.jpg''
           else splitext_ext env (urlparse_path env url))"
    by (simp add: extension_of_def str_in_def Let_def)
  from a j p g w n show ?thesis by blast
qed

theorem extension_order_witness:
  "headers png_response ''content-type'' = Some ''image/png''
   \<and> extension_of base_env png_response ''http://img/a.gif'' = ''.png''"
proof -
  have h: "headers png_response ''content-type'' = Some ''image/png''"
    by (simp add: png_response_def)
  from extension_order [of base_env png_response "''http://img/a.gif''"] h
  show ?thesis by blast
qed

text \<open>
  C10. When the caller supplies \<open>image_path\<close> and no \<open>image_url\<close>, nothing is
  downloaded, the path is handed to the submission, and after the submission attempt
  (whether it returned or raised) \<open>os.remove\<close> is called on the caller's path: the
  condition of the cleanup reads only \<open>image_path\<close> and \<open>image_url\<close>.
\<close>

theorem caller_path_removed:
  assumes "image_url request = None" and "image_path request = Some p" and "p \<noteq> []"
  shows "cleanup env request h' = (os_remove env h' p, h' @ [OsRemove p])
     \<and> snd (snd (create_video env request h)) =
          h @ [GetVideo (get_video_kwargs request), OsRemove p]
     \<and> kw_image_path (get_video_kwargs request) = Some p"
proof -
  from assms have "download_image env request h = (Inr request, h)"
    by (simp add: download_image_skip)
  from create_video_history [OF this] assms
  have "snd (snd (create_video env request h)) = h @ [GetVideo (get_video_kwargs request), OsRemove p]"
    by (simp add: submit_history)
  moreover from assms have "cleanup env request h' = (os_remove env h' p, h' @ [OsRemove p])"
    by (simp add: cleanup_def)
  moreover from assms have "kw_image_path (get_video_kwargs request) = Some p"
    by (simp add: get_video_kwargs_def)
  ultimately show ?thesis by blast
qed

theorem caller_path_removed_witness:
  "create_video base_env (plain_request\<lparr>image_path := Some ''/home/me/cat.png''\<rparr>) [] =
     (Inr 7, [],
      [GetVideo (get_video_kwargs (plain_request\<lparr>image_path := Some ''/home/me/cat.png''\<rparr>)),
       OsRemove ''/home/me/cat.png''])
   \<and> snd (snd (create_video rejecting_env (plain_request\<lparr>image_path := Some ''/home/me/cat.png''\<rparr>) [])) =
     [GetVideo (get_video_kwargs (plain_request\<lparr>image_path := Some ''/home/me/cat.png''\<rparr>)),
      OsRemove ''/home/me/cat.png'']"
proof -
  have a: "image_url (plain_request\<lparr>image_path := Some ''/home/me/cat.png''\<rparr>) = None"
    and b: "image_path (plain_request\<lparr>image_path := Some ''/home/me/cat.png''\<rparr>) = Some ''/home/me/cat.png''"
    and c: "''/home/me/cat.png'' \<noteq> []"
    by (simp_all add: plain_request_def)
  have "create_video base_env (plain_request\<lparr>image_path := Some ''/home/me/cat.png''\<rparr>) [] =
     (Inr 7, [],
      [GetVideo (get_video_kwargs (plain_request\<lparr>image_path := Some ''/home/me/cat.png''\<rparr>)),
       OsRemove ''/home/me/cat.png''])"
    by (simp add: create_video_def download_image_def submit_def cleanup_def base_env_def plain_request_def)
  with caller_path_removed [OF a b c, of rejecting_env "[]" "[]"] show ?thesis by simp
qed

text \<open>
  C9, as the code has it. \<open>create_video\<close> does not look at the prompt: it hands it,
  empty or not, to the provider's \<open>get_video\<close>. For a request without an image the
  provider's answer decides alone: the task id is returned when \<open>get_video\<close> returns
  one, and the request is rejected with a 400 error (no task id, no background task)
  when \<open>get_video\<close> raises.
\<close>

theorem prompt_not_checked:
  assumes "image_url request = None" and "image_path request = None"
  shows "kw_prompt (get_video_kwargs request) = prompt request
     \<and> create_video env request h =
         (case get_video env h (get_video_kwargs request) of
            Inl e \<Rightarrow>
              (Inl (HTTPException 400 (str env (HTTPException 400 (str env e)))), [],
               h @ [GetVideo (get_video_kwargs request)])
          | Inr n \<Rightarrow>
              (Inr n,
               (case webhook_url request of
                  None \<Rightarrow> []
                | Some url \<Rightarrow> if url \<noteq> [] then [(n, url)] else []),
               h @ [GetVideo (get_video_kwargs request)]))"
  using assms
  by (simp add: create_video_def download_image_def submit_def cleanup_def get_video_kwargs_def
        split: sum.splits)

theorem prompt_not_checked_witness:
  "create_video rejecting_env plain_request [] =
     (Inl (HTTPException 400 ''400: rejected''), [], [GetVideo (get_video_kwargs plain_request)])
   \<and> create_video base_env plain_request [] =
     (Inr 7, [], [GetVideo (get_video_kwargs plain_request)])"
proof -
  have a: "image_url plain_request = None" and b: "image_path plain_request = None"
    by (simp_all add: plain_request_def)
  from prompt_not_checked [OF a b, of rejecting_env "[]"]
    prompt_not_checked [OF a b, of base_env "[]"]
  show ?thesis
    by (simp add: rejecting_env_def base_env_def plain_request_def)
qed

text \<open>
  C9 as stated fails: a request whose prompt is the empty string, sent while the provider
  accepts submissions, is not rejected; it is submitted and task id 7 is returned.
\<close>

theorem empty_prompt_accepted:
  "create_video base_env (plain_request\<lparr>prompt := []\<rparr>) [] =
     (Inr 7, [],
      [GetVideo \<lparr>kw_prompt = [], kw_image_url = None, kw_image_path = None,
                 kw_is_high_quality = True, kw_model_name = ''1.5'',
                 kw_return_task_only = True\<rparr>])"
  by (simp add: create_video_def download_image_def submit_def cleanup_def get_video_kwargs_def
        base_env_def plain_request_def)

text \<open>
  C7. For a request whose \<open>image_url\<close> is set (not \<open>None\<close>, not empty), once the
  download has succeeded the request has \<open>image_url = None\<close> and \<open>image_path\<close> the
  non-empty name of the temporary file, so exactly one of the two is non-empty, and the
  submission is called with that path. Whatever the request, every \<open>get_video\<close> call
  that \<open>create_video\<close> makes has \<open>image_url = None\<close>.
\<close>

theorem image_url_cleared:
  "(truthy (image_url request) \<and> download_image env request h = (Inr request1, h1) \<longrightarrow>
      image_url request1 = None \<and> truthy (image_path request1)
      \<and> (\<exists>name. image_path request1 = Some name \<and> TempFileCreated name \<in> set h1
            \<and> snd (snd (create_video env request h)) =
                h1 @ [GetVideo (get_video_kwargs request1), OsRemove name])
      \<and> kw_image_path (get_video_kwargs request1) = image_path request1)
   \<and> (GetVideo args \<in> set (drop (length h) (snd (snd (create_video env request h)))) \<longrightarrow>
        kw_image_url args = None)"
proof (intro conjI impI)
  assume a: "truthy (image_url request) \<and> download_image env request h = (Inr request1, h1)"
  from download_image_Inr [of request env h request1 h1] a
  obtain url resp stem where
    r1: "request1 = request\<lparr>image_path := Some (stem @ extension_of env resp url), image_url := None\<rparr>"
    and h1: "h1 = h @ [ClientGet url, TempFileCreated (stem @ extension_of env resp url),
                  TempFileWrite (stem @ extension_of env resp url) (content resp)]"
    by blast
  from r1 show "image_url request1 = None" by simp
  from r1 show "truthy (image_path request1)" by (simp add: extension_of_nonempty)
  show "kw_image_path (get_video_kwargs request1) = image_path request1"
    by (simp add: get_video_kwargs_def)
  from a have "snd (snd (create_video env request h)) = snd (submit env request1 h1)"
    by (simp add: create_video_history)
  with r1 have "snd (snd (create_video env request h)) =
      h1 @ [GetVideo (get_video_kwargs request1), OsRemove (stem @ extension_of env resp url)]"
    by (simp add: submit_history extension_of_nonempty)
  with r1 h1 show "\<exists>name. image_path request1 = Some name \<and> TempFileCreated name \<in> set h1
            \<and> snd (snd (create_video env request h)) =
                h1 @ [GetVideo (get_video_kwargs request1), OsRemove name]"
    by simp
next
  assume g: "GetVideo args \<in> set (drop (length h) (snd (snd (create_video env request h))))"
  obtain res h1 where d: "download_image env request h = (res, h1)"
    by (cases "download_image env request h")
  from download_image_no_submission [OF d] obtain evs where
    evs: "h1 = h @ evs" "\<forall>a. GetVideo a \<notin> set evs" by blast
  show "kw_image_url args = None"
  proof (cases res)
    case (Inl e)
    with d have "snd (snd (create_video env request h)) = h1"
      by (simp add: create_video_def)
    with g evs show ?thesis by simp
  next
    case (Inr request1)
    with d have "snd (snd (create_video env request h)) = snd (submit env request1 h1)"
      by (simp add: create_video_history)
    with g evs have "args = get_video_kwargs request1"
      by (auto simp: submit_history split: option.splits if_splits)
    then show ?thesis by (simp add: get_video_kwargs_def)
  qed
qed

theorem image_url_cleared_witness:
  "truthy (image_url (plain_request\<lparr>image_url := Some ''http://img/a.gif''\<rparr>))
   \<and> download_image base_env (plain_request\<lparr>image_url := Some ''http://img/a.gif''\<rparr>) [] =
       (Inr (plain_request\<lparr>image_path := Some ''/tmp/tmpa1.png''\<rparr>),
        [ClientGet ''http://img/a.gif'', TempFileCreated ''/tmp/tmpa1.png'',
         TempFileWrite ''/tmp/tmpa1.png'' ''PNG''])
   \<and> image_url (plain_request\<lparr>image_path := Some ''/tmp/tmpa1.png''\<rparr>) = None
   \<and> truthy (image_path (plain_request\<lparr>image_path := Some ''/tmp/tmpa1.png''\<rparr>))"
proof -
  have t: "truthy (image_url (plain_request\<lparr>image_url := Some ''http://img/a.gif''\<rparr>))"
    by (simp add: plain_request_def)
  have d: "download_image base_env (plain_request\<lparr>image_url := Some ''http://img/a.gif''\<rparr>) [] =
       (Inr (plain_request\<lparr>image_path := Some ''/tmp/tmpa1.png''\<rparr>),
        [ClientGet ''http://img/a.gif'', TempFileCreated ''/tmp/tmpa1.png'',
         TempFileWrite ''/tmp/tmpa1.png'' ''PNG''])"
    by (simp add: download_image_def extension_of_def str_in_def sublist_code(3) Let_def
          base_env_def plain_request_def png_response_def)
  from image_url_cleared [of "plain_request\<lparr>image_url := Some ''http://img/a.gif''\<rparr>" base_env "[]"
      "plain_request\<lparr>image_path := Some ''/tmp/tmpa1.png''\<rparr>"
      "[ClientGet ''http://img/a.gif'', TempFileCreated ''/tmp/tmpa1.png'',
         TempFileWrite ''/tmp/tmpa1.png'' ''PNG'']"] t d
  show ?thesis by blast
qed

text \<open>
  C6. The temporary file is not removed on every failure path. With an \<open>image_url\<close>
  set, a download that succeeds and a write to the temporary file that raises,
  \<open>create_video\<close> answers the 400 error having created \<open>/tmp/tmpa1.png\<close> and never
  called \<open>os.remove\<close>: the \<open>finally\<close> that removes the file guards the submission
  only. When the write succeeds the file is removed, whether the submission returns or
  raises.
\<close>

theorem temp_file_left_behind:
  "create_video write_raises_env (plain_request\<lparr>image_url := Some ''http://img/a.gif''\<rparr>) [] =
     (Inl (HTTPException 400 ''No space left on device''), [],
      [ClientGet ''http://img/a.gif'', TempFileCreated ''/tmp/tmpa1.png'',
       TempFileWrite ''/tmp/tmpa1.png'' ''PNG''])
   \<and> create_video rejecting_env (plain_request\<lparr>image_url := Some ''http://img/a.gif''\<rparr>) [] =
     (Inl (HTTPException 400 ''400: rejected''), [],
      [ClientGet ''http://img/a.gif'', TempFileCreated ''/tmp/tmpa1.png'',
       TempFileWrite ''/tmp/tmpa1.png'' ''PNG'',
       GetVideo \<lparr>kw_prompt = ''a cat'', kw_image_url = None,
                 kw_image_path = Some ''/tmp/tmpa1.png'', kw_is_high_quality = True,
                 kw_model_name = ''1.5'', kw_return_task_only = True\<rparr>,
       OsRemove ''/tmp/tmpa1.png''])"
  by (simp add: create_video_def download_image_def submit_def cleanup_def get_video_kwargs_def
        extension_of_def str_in_def sublist_code(3) Let_def
        write_raises_env_def rejecting_env_def base_env_def plain_request_def png_response_def)

lemma poll_and_notify_raise:
  assumes "poll_try env t u h = (Inl e, h1)"
  shows "poll_and_notify env t u h =
     Some (client_post env h1 u (error_payload t (str env e)),
           h1 @ [ClientPost u (error_payload t (str env e))])"
proof (cases "client_post env h1 u (error_payload t (str env e))")
  case None
  with poll_iteration_raise [OF assms]
  have "poll_iteration env t u h = (Return, h1 @ [ClientPost u (error_payload t (str env e))])"
    by simp
  from poll_and_notify_Return [OF this] None show ?thesis by simp
next
  case (Some e')
  with poll_iteration_raise [OF assms]
  have "poll_iteration env t u h = (Raise e', h1 @ [ClientPost u (error_payload t (str env e))])"
    by simp
  from poll_and_notify_Raise [OF this] Some show ?thesis by simp
qed

lemma poll_and_notify_break:
  assumes "poll_try env t u h = (Inr Break, h1)"
  shows "poll_and_notify env t u h = Some (None, h1)"
proof -
  from assms have "poll_iteration env t u h = (Return, h1)"
    by (simp add: poll_iteration_def)
  then show ?thesis by (rule poll_and_notify_Return)
qed

text \<open>
  C3. When the body of a poll attempt raises \<open>e\<close> (after any number of polls that saw
  PENDING), the loop posts the payload with status \<open>error\<close> and the description
  \<open>str(e)\<close>, and ends there: nothing follows that POST in the history, and the loop's
  result is that POST's. A raising \<open>fetch_metadata\<close> is such a failure. The error
  payload differs from the failed payload, in its \<open>status\<close> field.
\<close>

theorem error_reported:
  "((\<forall>i<k. \<exists>d. fetch_metadata env (h @ pending_history t i) (IntId t) = Inr (d, PENDING))
     \<and> poll_try env t u (h @ pending_history t k) = (Inl e, h1) \<longrightarrow>
       poll_and_notify env t u h =
         Some (client_post env h1 u (error_payload t (str env e)),
               h1 @ [ClientPost u [(''task_id'', JInt t), (''status'', JStr ''error''),
                                   (''error'', JStr (str env e))]]))
   \<and> (fetch_metadata env h0 (IntId t) = Inl e \<longrightarrow>
        poll_try env t u h0 = (Inl e, h0 @ [FetchMetadata (IntId t)]))
   \<and> error_payload t d \<noteq> failed_payload t'
   \<and> map_of (error_payload t d) ''status'' = Some (JStr ''error'')
   \<and> map_of (failed_payload t') ''status'' = Some (JStr ''failed'')"
proof (intro conjI impI)
  assume a: "(\<forall>i<k. \<exists>d. fetch_metadata env (h @ pending_history t i) (IntId t) = Inr (d, PENDING))
     \<and> poll_try env t u (h @ pending_history t k) = (Inl e, h1)"
  then have "poll_and_notify env t u h = poll_and_notify env t u (h @ pending_history t k)"
    by (simp add: poll_after_pending)
  with a poll_and_notify_raise [of env t u "h @ pending_history t k" e h1]
  show "poll_and_notify env t u h =
         Some (client_post env h1 u (error_payload t (str env e)),
               h1 @ [ClientPost u [(''task_id'', JInt t), (''status'', JStr ''error''),
                                   (''error'', JStr (str env e))]])"
    by (simp add: error_payload_def)
next
  assume "fetch_metadata env h0 (IntId t) = Inl e"
  then show "poll_try env t u h0 = (Inl e, h0 @ [FetchMetadata (IntId t)])"
    by (rule poll_try_fetch_raises)
next
  show "error_payload t d \<noteq> failed_payload t'"
    by (simp add: error_payload_def failed_payload_def)
  show "map_of (error_payload t d) ''status'' = Some (JStr ''error'')"
    by (simp add: error_payload_def)
  show "map_of (failed_payload t') ''status'' = Some (JStr ''failed'')"
    by (simp add: failed_payload_def)
qed

lemma timeout_env_first:
  "fetch_metadata timeout_env [] (IntId 7) = Inr (Map.empty, PENDING)"
  by (simp add: timeout_env_def scripted_env_def answer_at_def)

lemma timeout_env_second:
  "poll_try timeout_env 7 ''http://hook'' [FetchMetadata (IntId 7), Sleep 5] =
     (Inl (Exn ''timed out''), [FetchMetadata (IntId 7), Sleep 5, FetchMetadata (IntId 7)])"
  by (simp add: poll_try_def timeout_env_def scripted_env_def answer_at_def is_poll_def)

theorem error_reported_witness:
  "poll_and_notify timeout_env 7 ''http://hook'' [] =
     Some (None,
           [FetchMetadata (IntId 7), Sleep 5, FetchMetadata (IntId 7),
            ClientPost ''http://hook''
              [(''task_id'', JInt 7), (''status'', JStr ''error''),
               (''error'', JStr ''timed out'')]])"
proof -
  have p: "\<forall>i<Suc 0. \<exists>d. fetch_metadata timeout_env ([] @ pending_history 7 i) (IntId 7) = Inr (d, PENDING)"
    by (simp add: pending_history_0 timeout_env_first)
  have q: "poll_try timeout_env 7 ''http://hook'' ([] @ pending_history 7 (Suc 0)) =
     (Inl (Exn ''timed out''), [FetchMetadata (IntId 7), Sleep 5, FetchMetadata (IntId 7)])"
    by (simp add: pending_history_Suc pending_history_0 timeout_env_second)
  from error_reported [of "Suc 0" timeout_env "[]" 7 "''http://hook''" "Exn ''timed out''"
      "[FetchMetadata (IntId 7), Sleep 5, FetchMetadata (IntId 7)]"] p q
  have "poll_and_notify timeout_env 7 ''http://hook'' [] =
         Some (client_post timeout_env [FetchMetadata (IntId 7), Sleep 5, FetchMetadata (IntId 7)]
                 ''http://hook'' (error_payload 7 (str timeout_env (Exn ''timed out''))),
               [FetchMetadata (IntId 7), Sleep 5, FetchMetadata (IntId 7)] @
               [ClientPost ''http://hook'' [(''task_id'', JInt 7), (''status'', JStr ''error''),
                                   (''error'', JStr (str timeout_env (Exn ''timed out'')))]])"
    by blast
  then show ?thesis
    by (simp add: timeout_env_def scripted_env_def base_env_def)
qed

text \<open>
  C5. When a poll sees FAILED (after any number of polls that saw PENDING), the loop posts
  the payload with status \<open>failed\<close> and error \<open>Video generation failed\<close> (and the
  task id), and returns: no \<open>fetch_metadata\<close> follows that POST. When the POST returns,
  it is the last event of the run.
\<close>

theorem failed_reported:
  assumes "\<forall>i<k. \<exists>d. fetch_metadata env (h @ pending_history t i) (IntId t) = Inr (d, PENDING)"
    and "fetch_metadata env (h @ pending_history t k) (IntId t) = Inr (d, FAILED)"
  shows "\<exists>r rest.
     poll_and_notify env t u h =
       Some (r, h @ pending_history t k @
                FetchMetadata (IntId t) #
                ClientPost u [(''task_id'', JInt t), (''status'', JStr ''failed''),
                              (''error'', JStr ''Video generation failed'')] # rest)
     \<and> filter is_poll rest = []
     \<and> (client_post env (h @ pending_history t k @ [FetchMetadata (IntId t)]) u (failed_payload t) = None
          \<longrightarrow> r = None \<and> rest = [])"
proof -
  let ?H = "h @ pending_history t k"
  let ?P = "[(''task_id'', JInt t), (''status'', JStr ''failed''),
             (''error'', JStr ''Video generation failed'')]"
  have P: "failed_payload t = ?P" by (simp add: failed_payload_def)
  from assms(1) have eq: "poll_and_notify env t u h = poll_and_notify env t u ?H"
    by (rule poll_after_pending)
  note pt = poll_try_failed [OF assms(2), of u]
  show ?thesis
  proof (cases "client_post env (?H @ [FetchMetadata (IntId t)]) u (failed_payload t)")
    case None
    with pt have "poll_try env t u ?H = (Inr Break, ?H @ [FetchMetadata (IntId t), ClientPost u (failed_payload t)])"
      by simp
    from poll_and_notify_break [OF this] eq P
    have "poll_and_notify env t u h =
       Some (None, h @ pending_history t k @ FetchMetadata (IntId t) # ClientPost u ?P # [])"
      by simp
    then show ?thesis by (intro exI [of _ None] exI [of _ "[]"]) simp
  next
    case (Some e)
    with pt have "poll_try env t u ?H = (Inl e, ?H @ [FetchMetadata (IntId t), ClientPost u (failed_payload t)])"
      by simp
    from poll_and_notify_raise [OF this] eq P
    have "poll_and_notify env t u h =
       Some (client_post env (?H @ [FetchMetadata (IntId t), ClientPost u ?P]) u (error_payload t (str env e)),
             h @ pending_history t k @ FetchMetadata (IntId t) # ClientPost u ?P #
               [ClientPost u (error_payload t (str env e))])"
      by simp
    with Some show ?thesis
      by (intro exI [of _ "client_post env (?H @ [FetchMetadata (IntId t), ClientPost u ?P]) u (error_payload t (str env e))"]
            exI [of _ "[ClientPost u (error_payload t (str env e))]"])
         (simp add: is_poll_def)
  qed
qed

lemma failed_env_first:
  "fetch_metadata failed_env [] (IntId 7) = Inr (Map.empty, PENDING)"
  by (simp add: failed_env_def scripted_env_def answer_at_def)

lemma failed_env_second:
  "fetch_metadata failed_env [FetchMetadata (IntId 7), Sleep 5] (IntId 7) = Inr (Map.empty, FAILED)"
  by (simp add: failed_env_def scripted_env_def answer_at_def is_poll_def)

theorem failed_reported_witness:
  "poll_and_notify failed_env 7 ''http://hook'' [] =
     Some (None,
           [FetchMetadata (IntId 7), Sleep 5, FetchMetadata (IntId 7),
            ClientPost ''http://hook''
              [(''task_id'', JInt 7), (''status'', JStr ''failed''),
               (''error'', JStr ''Video generation failed'')]])"
proof -
  have p: "\<forall>i<Suc 0. \<exists>d. fetch_metadata failed_env ([] @ pending_history 7 i) (IntId 7) = Inr (d, PENDING)"
    by (simp add: pending_history_0 failed_env_first)
  have q: "fetch_metadata failed_env ([] @ pending_history 7 (Suc 0)) (IntId 7) = Inr (Map.empty, FAILED)"
    by (simp add: pending_history_Suc pending_history_0 failed_env_second)
  have c: "client_post failed_env ([] @ pending_history 7 (Suc 0) @ [FetchMetadata (IntId 7)])
      ''http://hook'' (failed_payload 7) = None"
    by (simp add: failed_env_def scripted_env_def base_env_def)
  from failed_reported [OF p q, of "''http://hook''"] c
  show ?thesis by (auto simp: pending_history_Suc pending_history_0)
qed

text \<open>
  C4. When three successive polls see PENDING, PENDING and COMPLETED, and the works of the
  completed task resolve to the URLs \<open>u1\<close> and \<open>u2\<close>, the run is: poll, sleep 5, poll,
  sleep 5, poll, the lookups, and the POST of the payload with status \<open>completed\<close> and
  \<open>video_urls = [u1, u2]\<close>. The loop sleeps exactly twice, 5 each time, and that payload
  is posted exactly once; when its POST returns, it is the last event.
\<close>

theorem pending_pending_completed:
  assumes "fetch_metadata env h (IntId t) = Inr (d0, PENDING)"
    and "fetch_metadata env (h @ [FetchMetadata (IntId t), Sleep 5]) (IntId t) = Inr (d1, PENDING)"
    and "fetch_metadata env
           (h @ [FetchMetadata (IntId t), Sleep 5, FetchMetadata (IntId t), Sleep 5]) (IntId t) =
         Inr (d2, COMPLETED)"
    and "collect_video_urls env (get_works d2) []
           (h @ [FetchMetadata (IntId t), Sleep 5, FetchMetadata (IntId t), Sleep 5,
                 FetchMetadata (IntId t)]) = (Inr [u1, u2], h2)"
  shows "\<exists>r ids rest.
     h2 = h @ [FetchMetadata (IntId t), Sleep 5, FetchMetadata (IntId t), Sleep 5,
               FetchMetadata (IntId t)] @ map FetchVideoUrl ids
     \<and> poll_and_notify env t u h =
         Some (r, h2 @ ClientPost u [(''task_id'', JInt t), (''status'', JStr ''completed''),
                                    (''video_urls'', JList [JStr u1, JStr u2])] # rest)
     \<and> filter is_sleep
          (drop (length h)
             (h2 @ ClientPost u [(''task_id'', JInt t), (''status'', JStr ''completed''),
                                 (''video_urls'', JList [JStr u1, JStr u2])] # rest)) =
         [Sleep 5, Sleep 5]
     \<and> filter (\<lambda>ev. ev = ClientPost u [(''task_id'', JInt t), (''status'', JStr ''completed''),
                                       (''video_urls'', JList [JStr u1, JStr u2])])
          (drop (length h)
             (h2 @ ClientPost u [(''task_id'', JInt t), (''status'', JStr ''completed''),
                                 (''video_urls'', JList [JStr u1, JStr u2])] # rest)) =
         [ClientPost u [(''task_id'', JInt t), (''status'', JStr ''completed''),
                        (''video_urls'', JList [JStr u1, JStr u2])]]
     \<and> filter is_poll rest = []
     \<and> (client_post env h2 u (completed_payload t [u1, u2]) = None \<longrightarrow> r = None \<and> rest = [])"
proof -
  let ?F = "FetchMetadata (IntId t)"
  let ?P = "[(''task_id'', JInt t), (''status'', JStr ''completed''),
             (''video_urls'', JList [JStr u1, JStr u2])]"
  have P: "completed_payload t [u1, u2] = ?P" by (simp add: completed_payload_def)
  have s1: "poll_and_notify env t u h = poll_and_notify env t u (h @ [?F, Sleep 5])"
    using poll_and_notify_Again [OF poll_iteration_pending [OF assms(1)]] .
  have s2: "poll_and_notify env t u (h @ [?F, Sleep 5]) =
      poll_and_notify env t u (h @ [?F, Sleep 5, ?F, Sleep 5])"
    using poll_and_notify_Again [OF poll_iteration_pending [OF assms(2)], of u] by simp
  from collect_history [OF assms(4)] obtain ids where
    h2: "h2 = h @ [?F, Sleep 5, ?F, Sleep 5, ?F] @ map FetchVideoUrl ids"
    by auto
  have sl: "filter is_sleep (drop (length h) (h2 @ ClientPost u ?P # rest)) =
      [Sleep 5, Sleep 5] @ filter is_sleep rest" for rest
    by (simp add: h2 is_sleep_def no_sleep_lookups)
  have np: "filter (\<lambda>ev. ev = ClientPost u ?P) (map FetchVideoUrl ids) = []"
    by (induction ids) simp_all
  have po: "filter (\<lambda>ev. ev = ClientPost u ?P) (drop (length h) (h2 @ ClientPost u ?P # rest)) =
      ClientPost u ?P # filter (\<lambda>ev. ev = ClientPost u ?P) rest" for rest
    by (simp add: h2 np)
  from assms(4) have c4: "collect_video_urls env (get_works d2) []
      ((h @ [?F, Sleep 5, ?F, Sleep 5]) @ [?F]) = (Inr [u1, u2], h2)"
    by simp
  note pt = poll_try_completed [OF assms(3) c4, of u]
  show ?thesis
  proof (cases "client_post env h2 u (completed_payload t [u1, u2])")
    case None
    with pt have "poll_try env t u (h @ [?F, Sleep 5, ?F, Sleep 5]) =
        (Inr Break, h2 @ [ClientPost u (completed_payload t [u1, u2])])"
      by simp
    from poll_and_notify_break [OF this] s1 s2 P
    have r: "poll_and_notify env t u h = Some (None, h2 @ ClientPost u ?P # [])"
      by simp
    show ?thesis
      apply (rule exI [of _ None])
      apply (rule exI [of _ ids])
      apply (rule exI [of _ "[]"])
      using h2 r sl [of "[]"] po [of "[]"] apply simp
      done
  next
    case (Some e)
    let ?E = "ClientPost u (error_payload t (str env e))"
    from Some pt have "poll_try env t u (h @ [?F, Sleep 5, ?F, Sleep 5]) =
        (Inl e, h2 @ [ClientPost u (completed_payload t [u1, u2])])"
      by simp
    from poll_and_notify_raise [OF this] s1 s2 P
    have r: "poll_and_notify env t u h =
        Some (client_post env (h2 @ [ClientPost u ?P]) u (error_payload t (str env e)),
              h2 @ ClientPost u ?P # [?E])"
      by simp
    have e1: "filter is_sleep [?E] = []" by (simp add: is_sleep_def)
    have e2: "filter (\<lambda>ev. ev = ClientPost u ?P) [?E] = []"
      by (simp add: error_payload_def)
    have e3: "filter is_poll [?E] = []" by (simp add: is_poll_def)
    show ?thesis
      apply (rule exI [of _ "client_post env (h2 @ [ClientPost u ?P]) u (error_payload t (str env e))"])
      apply (rule exI [of _ ids])
      apply (rule exI [of _ "[?E]"])
      using h2 r sl [of "[?E]"] po [of "[?E]"] e1 e2 e3 Some apply simp
      done
  qed
qed

lemmas pending_twice_defs =
  pending_twice_env_def second_empty_env_def scripted_env_def base_env_def answer_at_def
  is_poll_def three_works_def get_works_def

theorem pending_pending_completed_witness:
  "poll_and_notify pending_twice_env 7 ''http://hook'' [] =
     Some (None,
           [FetchMetadata (IntId 7), Sleep 5, FetchMetadata (IntId 7), Sleep 5,
            FetchMetadata (IntId 7), FetchVideoUrl 1, FetchVideoUrl 2, FetchVideoUrl 3,
            ClientPost ''http://hook''
              [(''task_id'', JInt 7), (''status'', JStr ''completed''),
               (''video_urls'', JList [JStr ''http://cdn/1.mp4'', JStr ''http://cdn/3.mp4''])]])"
proof -
  have a: "fetch_metadata pending_twice_env [] (IntId 7) = Inr (Map.empty, PENDING)"
    by (simp add: pending_twice_defs)
  have b: "fetch_metadata pending_twice_env ([] @ [FetchMetadata (IntId 7), Sleep 5]) (IntId 7) =
      Inr (Map.empty, PENDING)"
    by (simp add: pending_twice_defs)
  have c: "fetch_metadata pending_twice_env
      ([] @ [FetchMetadata (IntId 7), Sleep 5, FetchMetadata (IntId 7), Sleep 5]) (IntId 7) =
      Inr (three_works, COMPLETED)"
    by (simp add: pending_twice_env_def second_empty_env_def scripted_env_def base_env_def
          answer_at_def is_poll_def)
  have d: "collect_video_urls pending_twice_env (get_works three_works) []
      ([] @ [FetchMetadata (IntId 7), Sleep 5, FetchMetadata (IntId 7), Sleep 5,
             FetchMetadata (IntId 7)]) =
      (Inr [''http://cdn/1.mp4'', ''http://cdn/3.mp4''],
       [FetchMetadata (IntId 7), Sleep 5, FetchMetadata (IntId 7), Sleep 5,
        FetchMetadata (IntId 7), FetchVideoUrl 1, FetchVideoUrl 2, FetchVideoUrl 3])"
    by (simp add: pending_twice_defs)
  have e: "client_post pending_twice_env
      [FetchMetadata (IntId 7), Sleep 5, FetchMetadata (IntId 7), Sleep 5,
        FetchMetadata (IntId 7), FetchVideoUrl 1, FetchVideoUrl 2, FetchVideoUrl 3]
      ''http://hook'' (completed_payload 7 [''http://cdn/1.mp4'', ''http://cdn/3.mp4'']) = None"
    by (simp add: pending_twice_defs)
  from pending_pending_completed [OF a b c d, of "''http://hook''"] e
  show ?thesis by auto
qed

lemma kept_filter: "kept rs = map the (filter truthy rs)"
  by (induction rs rule: kept.induct) simp_all

lemma get_video_status_completed:
  assumes "fetch_metadata env h (StrId tid) = Inr (d, COMPLETED)"
    and "map (\<lambda>w. w ''workId'') (get_works d) = map Some ids"
    and "length rs = length ids"
    and "\<forall>i<length ids. \<exists>st.
           fetch_video_url env (h @ FetchMetadata (StrId tid) # map FetchVideoUrl (take i ids)) (ids ! i) =
           Inr (rs ! i, st)"
  shows "get_video_status env tid h =
     (Inr [(''task_id'', JStr tid), (''status'', JStr ''completed''),
           (''video_urls'', JList (map JStr (kept rs)))],
      h @ FetchMetadata (StrId tid) # map FetchVideoUrl ids)"
proof -
  from assms(4) have "\<forall>i<length ids. \<exists>st.
      fetch_video_url env ((h @ [FetchMetadata (StrId tid)]) @ map FetchVideoUrl (take i ids)) (ids ! i) =
      Inr (rs ! i, st)"
    by simp
  from collect_all_return [OF assms(2) assms(3) this, of "[]"] assms(1)
  show ?thesis by (simp add: get_video_status_def)
qed

lemma poll_completed:
  assumes "fetch_metadata env h (IntId t) = Inr (d, COMPLETED)"
    and "map (\<lambda>w. w ''workId'') (get_works d) = map Some ids"
    and "length rs = length ids"
    and "\<forall>i<length ids. \<exists>st.
           fetch_video_url env (h @ FetchMetadata (IntId t) # map FetchVideoUrl (take i ids)) (ids ! i) =
           Inr (rs ! i, st)"
  shows "\<exists>r rest. poll_and_notify env t u h =
     Some (r, h @ FetchMetadata (IntId t) # map FetchVideoUrl ids @
              ClientPost u [(''task_id'', JInt t), (''status'', JStr ''completed''),
                            (''video_urls'', JList (map JStr (kept rs)))] # rest)"
proof -
  let ?h2 = "h @ FetchMetadata (IntId t) # map FetchVideoUrl ids"
  from assms(4) have "\<forall>i<length ids. \<exists>st.
      fetch_video_url env ((h @ [FetchMetadata (IntId t)]) @ map FetchVideoUrl (take i ids)) (ids ! i) =
      Inr (rs ! i, st)"
    by simp
  from collect_all_return [OF assms(2) assms(3) this, of "[]"]
  have c: "collect_video_urls env (get_works d) [] (h @ [FetchMetadata (IntId t)]) = (Inr (kept rs), ?h2)"
    by simp
  note pt = poll_try_completed [OF assms(1) c, of u]
  have P: "completed_payload t (kept rs) =
      [(''task_id'', JInt t), (''status'', JStr ''completed''),
       (''video_urls'', JList (map JStr (kept rs)))]"
    by (simp add: completed_payload_def)
  show ?thesis
  proof (cases "client_post env ?h2 u (completed_payload t (kept rs))")
    case None
    with pt have "poll_try env t u h = (Inr Break, ?h2 @ [ClientPost u (completed_payload t (kept rs))])"
      by simp
    from poll_and_notify_break [OF this] P show ?thesis by simp
  next
    case (Some e)
    with pt have "poll_try env t u h = (Inl e, ?h2 @ [ClientPost u (completed_payload t (kept rs))])"
      by simp
    from poll_and_notify_raise [OF this] P show ?thesis by simp
  qed
qed

lemma collect_prefix:
  "map (\<lambda>w. w ''workId'') ws1 = map Some ids \<Longrightarrow> length rs = length ids \<Longrightarrow>
   (\<forall>i<length ids. \<exists>st. fetch_video_url env (h @ map FetchVideoUrl (take i ids)) (ids ! i) = Inr (rs ! i, st)) \<Longrightarrow>
   collect_video_urls env (ws1 @ ws2) urls h =
     collect_video_urls env ws2 (urls @ kept rs) (h @ map FetchVideoUrl ids)"
proof (induction ws1 arbitrary: ids rs urls h)
  case Nil
  then show ?case by simp
next
  case (Cons w ws)
  from Cons.prems(1) obtain wid ids' where ids: "ids = wid # ids'" and w: "w ''workId'' = Some wid"
    and ws: "map (\<lambda>w. w ''workId'') ws = map Some ids'"
    by (cases ids) auto
  from Cons.prems(2) ids obtain r rs' where rs: "rs = r # rs'" and len: "length rs' = length ids'"
    by (cases rs) auto
  from Cons.prems(3) [rule_format, of 0] ids rs obtain st where
    first: "fetch_video_url env h wid = Inr (r, st)" by auto
  have rest: "\<forall>i<length ids'. \<exists>st. fetch_video_url env ((h @ [FetchVideoUrl wid]) @ map FetchVideoUrl (take i ids')) (ids' ! i) = Inr (rs' ! i, st)"
  proof (intro allI impI)
    fix i assume "i < length ids'"
    with Cons.prems(3) [rule_format, of "Suc i"] ids rs show
      "\<exists>st. fetch_video_url env ((h @ [FetchVideoUrl wid]) @ map FetchVideoUrl (take i ids')) (ids' ! i) = Inr (rs' ! i, st)"
      by simp
  qed
  note IH = Cons.IH [OF ws len rest]
  show ?case
  proof (cases r)
    case None
    with w first IH [of urls] ids rs show ?thesis by simp
  next
    case (Some s)
    with w first IH [of urls] IH [of "urls @ [s]"] ids rs show ?thesis by simp
  qed
qed

text \<open>The loop over the works stops at the first work that has no id or whose lookup raises.\<close>

lemma collect_aborts:
  assumes "map (\<lambda>w. w ''workId'') ws1 = map Some ids" and "length rs = length ids"
    and "\<forall>i<length ids. \<exists>st. fetch_video_url env (h @ map FetchVideoUrl (take i ids)) (ids ! i) = Inr (rs ! i, st)"
    and "(w ''workId'' = None \<and> e = KeyError_workId \<and> evs = [])
       \<or> (\<exists>wid. w ''workId'' = Some wid \<and> fetch_video_url env (h @ map FetchVideoUrl ids) wid = Inl e
             \<and> evs = [FetchVideoUrl wid])"
  shows "collect_video_urls env (ws1 @ w # ws2) urls h = (Inl e, h @ map FetchVideoUrl ids @ evs)"
proof -
  from collect_prefix [OF assms(1-3)]
  have "collect_video_urls env (ws1 @ w # ws2) urls h =
      collect_video_urls env (w # ws2) (urls @ kept rs) (h @ map FetchVideoUrl ids)" .
  with assms(4) show ?thesis by auto
qed


lemma get_video_status_aborts:
  assumes "fetch_metadata env h (StrId tid) = Inr (d, COMPLETED)"
    and "get_works d = ws1 @ w # ws2"
    and "map (\<lambda>w. w ''workId'') ws1 = map Some ids" and "length rs = length ids"
    and "\<forall>i<length ids. \<exists>st.
           fetch_video_url env (h @ FetchMetadata (StrId tid) # map FetchVideoUrl (take i ids)) (ids ! i) =
           Inr (rs ! i, st)"
    and "(w ''workId'' = None \<and> e = KeyError_workId \<and> evs = [])
       \<or> (\<exists>wid. w ''workId'' = Some wid
             \<and> fetch_video_url env (h @ FetchMetadata (StrId tid) # map FetchVideoUrl ids) wid = Inl e
             \<and> evs = [FetchVideoUrl wid])"
  shows "get_video_status env tid h =
     (Inl (HTTPException 400 (str env e)),
      h @ FetchMetadata (StrId tid) # map FetchVideoUrl ids @ evs)"
proof -
  from assms(5) have a: "\<forall>i<length ids. \<exists>st.
      fetch_video_url env ((h @ [FetchMetadata (StrId tid)]) @ map FetchVideoUrl (take i ids)) (ids ! i) =
      Inr (rs ! i, st)"
    by simp
  from assms(6) have b: "(w ''workId'' = None \<and> e = KeyError_workId \<and> evs = [])
       \<or> (\<exists>wid. w ''workId'' = Some wid
             \<and> fetch_video_url env ((h @ [FetchMetadata (StrId tid)]) @ map FetchVideoUrl ids) wid = Inl e
             \<and> evs = [FetchVideoUrl wid])"
    by simp
  note c = collect_aborts [where env = env and ?ws1.0 = ws1 and w = w and ?ws2.0 = ws2
      and ids = ids and rs = rs and e = e and evs = evs and urls = "[]"
      and h = "h @ [FetchMetadata (StrId tid)]"]
  from c assms(3) assms(4) a b
  have "collect_video_urls env (ws1 @ w # ws2) [] (h @ [FetchMetadata (StrId tid)]) =
      (Inl e, (h @ [FetchMetadata (StrId tid)]) @ map FetchVideoUrl ids @ evs)"
    by blast
  with assms(1) assms(2) show ?thesis by (simp add: get_video_status_def)
qed

lemma poll_aborts:
  assumes "fetch_metadata env h (IntId t) = Inr (d, COMPLETED)"
    and "get_works d = ws1 @ w # ws2"
    and "map (\<lambda>w. w ''workId'') ws1 = map Some ids" and "length rs = length ids"
    and "\<forall>i<length ids. \<exists>st.
           fetch_video_url env (h @ FetchMetadata (IntId t) # map FetchVideoUrl (take i ids)) (ids ! i) =
           Inr (rs ! i, st)"
    and "(w ''workId'' = None \<and> e = KeyError_workId \<and> evs = [])
       \<or> (\<exists>wid. w ''workId'' = Some wid
             \<and> fetch_video_url env (h @ FetchMetadata (IntId t) # map FetchVideoUrl ids) wid = Inl e
             \<and> evs = [FetchVideoUrl wid])"
  shows "poll_and_notify env t u h =
     Some (client_post env (h @ FetchMetadata (IntId t) # map FetchVideoUrl ids @ evs) u
             (error_payload t (str env e)),
           h @ FetchMetadata (IntId t) # map FetchVideoUrl ids @ evs @
             [ClientPost u (error_payload t (str env e))])"
proof -
  from assms(5) have a: "\<forall>i<length ids. \<exists>st.
      fetch_video_url env ((h @ [FetchMetadata (IntId t)]) @ map FetchVideoUrl (take i ids)) (ids ! i) =
      Inr (rs ! i, st)"
    by simp
  from assms(6) have b: "(w ''workId'' = None \<and> e = KeyError_workId \<and> evs = [])
       \<or> (\<exists>wid. w ''workId'' = Some wid
             \<and> fetch_video_url env ((h @ [FetchMetadata (IntId t)]) @ map FetchVideoUrl ids) wid = Inl e
             \<and> evs = [FetchVideoUrl wid])"
    by simp
  note c = collect_aborts [where env = env and ?ws1.0 = ws1 and w = w and ?ws2.0 = ws2
      and ids = ids and rs = rs and e = e and evs = evs and urls = "[]"
      and h = "h @ [FetchMetadata (IntId t)]"]
  from c assms(3) assms(4) a b
  have "collect_video_urls env (ws1 @ w # ws2) [] (h @ [FetchMetadata (IntId t)]) =
      (Inl e, (h @ [FetchMetadata (IntId t)]) @ map FetchVideoUrl ids @ evs)"
    by blast
  with assms(2)
  have "collect_video_urls env (get_works d) [] (h @ [FetchMetadata (IntId t)]) =
      (Inl e, h @ FetchMetadata (IntId t) # map FetchVideoUrl ids @ evs)"
    by simp
  from poll_and_notify_raise [OF poll_try_completed_raises [OF assms(1) this]]
  show ?thesis by simp
qed

text \<open>
  C2, as the code has it. When the provider reports COMPLETED, every work has a
  \<open>workId\<close> and every lookup returns, the works are looked up in the provider's order,
  the resources that are \<open>None\<close> or empty are left out, the others keep their order, and
  the state stays \<open>completed\<close>: in \<open>get_video_status\<close>'s answer and in the payload that
  \<open>poll_and_notify\<close> posts. For three lookups answering \<open>u1\<close>, nothing, \<open>u3\<close> the list
  is \<open>[u1, u3]\<close>. A work without \<open>workId\<close>, or a lookup that raises, is not left out:
  the loop over the works stops at that work, the works after it are not looked up,
  \<open>get_video_status\<close> answers the 400 error carrying the exception's description, and
  \<open>poll_and_notify\<close> posts the error payload carrying it and ends.
\<close>

theorem resources_kept_in_order:
  "(fetch_metadata env h (StrId tid) = Inr (d, COMPLETED)
      \<and> map (\<lambda>w. w ''workId'') (get_works d) = map Some ids \<and> length rs = length ids
      \<and> (\<forall>i<length ids. \<exists>st.
            fetch_video_url env (h @ FetchMetadata (StrId tid) # map FetchVideoUrl (take i ids)) (ids ! i) =
            Inr (rs ! i, st)) \<longrightarrow>
      get_video_status env tid h =
        (Inr [(''task_id'', JStr tid), (''status'', JStr ''completed''),
              (''video_urls'', JList (map JStr (kept rs)))],
         h @ FetchMetadata (StrId tid) # map FetchVideoUrl ids))
   \<and> (fetch_metadata env h (IntId t) = Inr (d, COMPLETED)
      \<and> map (\<lambda>w. w ''workId'') (get_works d) = map Some ids \<and> length rs = length ids
      \<and> (\<forall>i<length ids. \<exists>st.
            fetch_video_url env (h @ FetchMetadata (IntId t) # map FetchVideoUrl (take i ids)) (ids ! i) =
            Inr (rs ! i, st)) \<longrightarrow>
      (\<exists>r rest. poll_and_notify env t u h =
         Some (r, h @ FetchMetadata (IntId t) # map FetchVideoUrl ids @
                  ClientPost u [(''task_id'', JInt t), (''status'', JStr ''completed''),
                                (''video_urls'', JList (map JStr (kept rs)))] # rest)))
   \<and> kept rs = map the (filter truthy rs)
   \<and> (u1 \<noteq> [] \<and> u3 \<noteq> [] \<longrightarrow>
        kept [Some u1, None, Some u3] = [u1, u3] \<and> kept [Some u1, Some [], Some u3] = [u1, u3])
   \<and> (fetch_metadata env h (StrId tid) = Inr (d, COMPLETED)
      \<and> get_works d = ws1 @ w # ws2
      \<and> map (\<lambda>w. w ''workId'') ws1 = map Some ids \<and> length rs = length ids
      \<and> (\<forall>i<length ids. \<exists>st.
            fetch_video_url env (h @ FetchMetadata (StrId tid) # map FetchVideoUrl (take i ids)) (ids ! i) =
            Inr (rs ! i, st))
      \<and> ((w ''workId'' = None \<and> e = KeyError_workId \<and> evs = [])
         \<or> (\<exists>wid. w ''workId'' = Some wid
               \<and> fetch_video_url env (h @ FetchMetadata (StrId tid) # map FetchVideoUrl ids) wid = Inl e
               \<and> evs = [FetchVideoUrl wid])) \<longrightarrow>
      get_video_status env tid h =
        (Inl (HTTPException 400 (str env e)),
         h @ FetchMetadata (StrId tid) # map FetchVideoUrl ids @ evs))
   \<and> (fetch_metadata env h (IntId t) = Inr (d, COMPLETED)
      \<and> get_works d = ws1 @ w # ws2
      \<and> map (\<lambda>w. w ''workId'') ws1 = map Some ids \<and> length rs = length ids
      \<and> (\<forall>i<length ids. \<exists>st.
            fetch_video_url env (h @ FetchMetadata (IntId t) # map FetchVideoUrl (take i ids)) (ids ! i) =
            Inr (rs ! i, st))
      \<and> ((w ''workId'' = None \<and> e = KeyError_workId \<and> evs = [])
         \<or> (\<exists>wid. w ''workId'' = Some wid
               \<and> fetch_video_url env (h @ FetchMetadata (IntId t) # map FetchVideoUrl ids) wid = Inl e
               \<and> evs = [FetchVideoUrl wid])) \<longrightarrow>
      poll_and_notify env t u h =
        Some (client_post env (h @ FetchMetadata (IntId t) # map FetchVideoUrl ids @ evs) u
                [(''task_id'', JInt t), (''status'', JStr ''error''), (''error'', JStr (str env e))],
              h @ FetchMetadata (IntId t) # map FetchVideoUrl ids @ evs @
                [ClientPost u [(''task_id'', JInt t), (''status'', JStr ''error''),
                               (''error'', JStr (str env e))]]))"
proof (intro conjI impI)
  assume "fetch_metadata env h (StrId tid) = Inr (d, COMPLETED)
      \<and> map (\<lambda>w. w ''workId'') (get_works d) = map Some ids \<and> length rs = length ids
      \<and> (\<forall>i<length ids. \<exists>st.
            fetch_video_url env (h @ FetchMetadata (StrId tid) # map FetchVideoUrl (take i ids)) (ids ! i) =
            Inr (rs ! i, st))"
  then show "get_video_status env tid h =
        (Inr [(''task_id'', JStr tid), (''status'', JStr ''completed''),
              (''video_urls'', JList (map JStr (kept rs)))],
         h @ FetchMetadata (StrId tid) # map FetchVideoUrl ids)"
    using get_video_status_completed [of env h tid d ids rs] by blast
next
  assume "fetch_metadata env h (IntId t) = Inr (d, COMPLETED)
      \<and> map (\<lambda>w. w ''workId'') (get_works d) = map Some ids \<and> length rs = length ids
      \<and> (\<forall>i<length ids. \<exists>st.
            fetch_video_url env (h @ FetchMetadata (IntId t) # map FetchVideoUrl (take i ids)) (ids ! i) =
            Inr (rs ! i, st))"
  then show "\<exists>r rest. poll_and_notify env t u h =
         Some (r, h @ FetchMetadata (IntId t) # map FetchVideoUrl ids @
                  ClientPost u [(''task_id'', JInt t), (''status'', JStr ''completed''),
                                (''video_urls'', JList (map JStr (kept rs)))] # rest)"
    using poll_completed [of env h t d ids rs u] by blast
next
  show "kept rs = map the (filter truthy rs)" by (rule kept_filter)
next
  assume "u1 \<noteq> [] \<and> u3 \<noteq> []"
  then show "kept [Some u1, None, Some u3] = [u1, u3]" by simp
next
  assume "u1 \<noteq> [] \<and> u3 \<noteq> []"
  then show "kept [Some u1, Some [], Some u3] = [u1, u3]" by simp
next
  assume a: "fetch_metadata env h (StrId tid) = Inr (d, COMPLETED)
      \<and> get_works d = ws1 @ w # ws2
      \<and> map (\<lambda>w. w ''workId'') ws1 = map Some ids \<and> length rs = length ids
      \<and> (\<forall>i<length ids. \<exists>st.
            fetch_video_url env (h @ FetchMetadata (StrId tid) # map FetchVideoUrl (take i ids)) (ids ! i) =
            Inr (rs ! i, st))
      \<and> ((w ''workId'' = None \<and> e = KeyError_workId \<and> evs = [])
         \<or> (\<exists>wid. w ''workId'' = Some wid
               \<and> fetch_video_url env (h @ FetchMetadata (StrId tid) # map FetchVideoUrl ids) wid = Inl e
               \<and> evs = [FetchVideoUrl wid]))"
  note l = get_video_status_aborts [where env = env and h = h and tid = tid and d = d
      and ?ws1.0 = ws1 and w = w and ?ws2.0 = ws2 and ids = ids and rs = rs and e = e and evs = evs]
  from a l show "get_video_status env tid h =
        (Inl (HTTPException 400 (str env e)),
         h @ FetchMetadata (StrId tid) # map FetchVideoUrl ids @ evs)"
    by blast
next
  assume a: "fetch_metadata env h (IntId t) = Inr (d, COMPLETED)
      \<and> get_works d = ws1 @ w # ws2
      \<and> map (\<lambda>w. w ''workId'') ws1 = map Some ids \<and> length rs = length ids
      \<and> (\<forall>i<length ids. \<exists>st.
            fetch_video_url env (h @ FetchMetadata (IntId t) # map FetchVideoUrl (take i ids)) (ids ! i) =
            Inr (rs ! i, st))
      \<and> ((w ''workId'' = None \<and> e = KeyError_workId \<and> evs = [])
         \<or> (\<exists>wid. w ''workId'' = Some wid
               \<and> fetch_video_url env (h @ FetchMetadata (IntId t) # map FetchVideoUrl ids) wid = Inl e
               \<and> evs = [FetchVideoUrl wid]))"
  note l = poll_aborts [where env = env and h = h and t = t and d = d and u = u
      and ?ws1.0 = ws1 and w = w and ?ws2.0 = ws2 and ids = ids and rs = rs and e = e and evs = evs]
  from a l have "poll_and_notify env t u h =
     Some (client_post env (h @ FetchMetadata (IntId t) # map FetchVideoUrl ids @ evs) u
             (error_payload t (str env e)),
           h @ FetchMetadata (IntId t) # map FetchVideoUrl ids @ evs @
             [ClientPost u (error_payload t (str env e))])"
    by blast
  then show "poll_and_notify env t u h =
        Some (client_post env (h @ FetchMetadata (IntId t) # map FetchVideoUrl ids @ evs) u
                [(''task_id'', JInt t), (''status'', JStr ''error''), (''error'', JStr (str env e))],
              h @ FetchMetadata (IntId t) # map FetchVideoUrl ids @ evs @
                [ClientPost u [(''task_id'', JInt t), (''status'', JStr ''error''),
                               (''error'', JStr (str env e))]])"
    by (simp add: error_payload_def)
qed

lemmas second_empty_defs =
  second_empty_env_def scripted_env_def base_env_def answer_at_def
  is_poll_def three_works_def get_works_def

theorem resources_kept_in_order_witness:
  "get_video_status second_empty_env ''7'' [] =
     (Inr [(''task_id'', JStr ''7''), (''status'', JStr ''completed''),
           (''video_urls'', JList [JStr ''http://cdn/1.mp4'', JStr ''http://cdn/3.mp4''])],
      [FetchMetadata (StrId ''7''), FetchVideoUrl 1, FetchVideoUrl 2, FetchVideoUrl 3])
   \<and> (\<exists>r rest. poll_and_notify second_empty_env 7 ''http://hook'' [] =
         Some (r, [FetchMetadata (IntId 7), FetchVideoUrl 1, FetchVideoUrl 2, FetchVideoUrl 3,
                   ClientPost ''http://hook''
                     [(''task_id'', JInt 7), (''status'', JStr ''completed''),
                      (''video_urls'', JList [JStr ''http://cdn/1.mp4'', JStr ''http://cdn/3.mp4''])]]
                  @ rest))
   \<and> kept [Some ''http://cdn/1.mp4'', None, Some ''http://cdn/3.mp4''] =
       [''http://cdn/1.mp4'', ''http://cdn/3.mp4'']
   \<and> get_video_status second_raises_env ''7'' [] =
       (Inl (HTTPException 400 ''lookup failed''),
        [FetchMetadata (StrId ''7''), FetchVideoUrl 1, FetchVideoUrl 2])
   \<and> get_video_status second_unnamed_env ''7'' [] =
       (Inl (HTTPException 400 ([CHR 0x27] @ ''workId'' @ [CHR 0x27])),
        [FetchMetadata (StrId ''7''), FetchVideoUrl 1])
   \<and> poll_and_notify second_unnamed_env 7 ''http://hook'' [] =
       Some (None,
             [FetchMetadata (IntId 7), FetchVideoUrl 1,
              ClientPost ''http://hook''
                [(''task_id'', JInt 7), (''status'', JStr ''error''),
                 (''error'', JStr ([CHR 0x27] @ ''workId'' @ [CHR 0x27]))]])"
proof -
  let ?rs = "[Some ''http://cdn/1.mp4'', None, Some ''http://cdn/3.mp4'']"
  have a: "fetch_metadata second_empty_env [] (StrId ''7'') = Inr (three_works, COMPLETED)"
    by (simp add: second_empty_env_def scripted_env_def base_env_def answer_at_def)
  have a': "fetch_metadata second_empty_env [] (IntId 7) = Inr (three_works, COMPLETED)"
    by (simp add: second_empty_env_def scripted_env_def base_env_def answer_at_def)
  have b: "map (\<lambda>w. w ''workId'') (get_works three_works) = map Some [1, 2, 3]"
    by (simp add: three_works_def get_works_def)
  have c: "length ?rs = length [1, 2, 3 :: int]"
    by simp
  have d: "\<forall>i<length [1, 2, 3 :: int]. \<exists>st.
      fetch_video_url second_empty_env
        ([] @ FetchMetadata (StrId ''7'') # map FetchVideoUrl (take i [1, 2, 3])) ([1, 2, 3] ! i) =
      Inr (?rs ! i, st)"
    by (simp add: second_empty_env_def scripted_env_def base_env_def less_Suc_eq)
  have d': "\<forall>i<length [1, 2, 3 :: int]. \<exists>st.
      fetch_video_url second_empty_env
        ([] @ FetchMetadata (IntId 7) # map FetchVideoUrl (take i [1, 2, 3])) ([1, 2, 3] ! i) =
      Inr (?rs ! i, st)"
    by (simp add: second_empty_env_def scripted_env_def base_env_def less_Suc_eq)
  have u: "''http://cdn/1.mp4'' \<noteq> [] \<and> ''http://cdn/3.mp4'' \<noteq> []"
    by simp
  note inst = resources_kept_in_order [where env = second_empty_env and h = "[]" and tid = "''7''"
      and d = three_works and ids = "[1, 2, 3]" and rs = ?rs and t = 7 and u = "''http://hook''"
      and ?u1.0 = "''http://cdn/1.mp4''" and ?u3.0 = "''http://cdn/3.mp4''"]
  from inst a b c d
  have 1: "get_video_status second_empty_env ''7'' [] =
        (Inr [(''task_id'', JStr ''7''), (''status'', JStr ''completed''),
              (''video_urls'', JList (map JStr (kept ?rs)))],
         [] @ FetchMetadata (StrId ''7'') # map FetchVideoUrl [1, 2, 3])"
    by blast
  from inst a' b c d'
  have 2: "\<exists>r rest. poll_and_notify second_empty_env 7 ''http://hook'' [] =
         Some (r, [] @ FetchMetadata (IntId 7) # map FetchVideoUrl [1, 2, 3] @
                  ClientPost ''http://hook'' [(''task_id'', JInt 7), (''status'', JStr ''completed''),
                                (''video_urls'', JList (map JStr (kept ?rs)))] # rest)"
    by blast
  from inst u have 3: "kept ?rs = [''http://cdn/1.mp4'', ''http://cdn/3.mp4'']"
    by blast
  \<comment> \<open>the second lookup raises\<close>
  have ra: "fetch_metadata second_raises_env [] (StrId ''7'') = Inr (three_works, COMPLETED)"
    by (simp add: second_raises_env_def scripted_env_def base_env_def answer_at_def)
  have rb: "get_works three_works = [[''workId'' \<mapsto> 1]] @ [''workId'' \<mapsto> 2] # [[''workId'' \<mapsto> 3]]"
    by (simp add: three_works_def get_works_def)
  have rc: "map (\<lambda>w. w ''workId'') [[''workId'' \<mapsto> (1::int)]] = map Some [1]"
    by simp
  have rd: "length [Some ''http://cdn/1.mp4''] = length [1 :: int]"
    by simp
  have re: "\<forall>i<length [1 :: int]. \<exists>st.
      fetch_video_url second_raises_env
        ([] @ FetchMetadata (StrId ''7'') # map FetchVideoUrl (take i [1])) ([1] ! i) =
      Inr ([Some ''http://cdn/1.mp4''] ! i, st)"
    by (simp add: second_raises_env_def scripted_env_def base_env_def)
  have rf: "([''workId'' \<mapsto> (2::int)] ''workId'' = None \<and> Exn ''lookup failed'' = KeyError_workId
        \<and> [FetchVideoUrl 2] = [])
      \<or> (\<exists>wid. [''workId'' \<mapsto> (2::int)] ''workId'' = Some wid
            \<and> fetch_video_url second_raises_env
                 ([] @ FetchMetadata (StrId ''7'') # map FetchVideoUrl [1]) wid = Inl (Exn ''lookup failed'')
            \<and> [FetchVideoUrl 2] = [FetchVideoUrl wid])"
    by (simp add: second_raises_env_def scripted_env_def base_env_def)
  note inst2 = resources_kept_in_order [where env = second_raises_env and h = "[]" and tid = "''7''"
      and d = three_works and ids = "[1]" and rs = "[Some ''http://cdn/1.mp4'']"
      and ?ws1.0 = "[[''workId'' \<mapsto> 1]]" and w = "[''workId'' \<mapsto> 2]"
      and ?ws2.0 = "[[''workId'' \<mapsto> 3]]" and e = "Exn ''lookup failed''" and evs = "[FetchVideoUrl 2]"]
  from inst2 ra rb rc rd re rf
  have 4: "get_video_status second_raises_env ''7'' [] =
        (Inl (HTTPException 400 (str second_raises_env (Exn ''lookup failed''))),
         [] @ FetchMetadata (StrId ''7'') # map FetchVideoUrl [1] @ [FetchVideoUrl 2])"
    by blast
  \<comment> \<open>the second work has no id\<close>
  have ua: "fetch_metadata second_unnamed_env [] (StrId ''7'') = Inr (second_unnamed_works, COMPLETED)"
    by (simp add: second_unnamed_env_def)
  have ua': "fetch_metadata second_unnamed_env [] (IntId 7) = Inr (second_unnamed_works, COMPLETED)"
    by (simp add: second_unnamed_env_def)
  have ub: "get_works second_unnamed_works = [[''workId'' \<mapsto> 1]] @ Map.empty # [[''workId'' \<mapsto> 3]]"
    by (simp add: second_unnamed_works_def get_works_def)
  have ue: "\<forall>i<length [1 :: int]. \<exists>st.
      fetch_video_url second_unnamed_env
        ([] @ FetchMetadata (StrId ''7'') # map FetchVideoUrl (take i [1])) ([1] ! i) =
      Inr ([Some ''http://cdn/1.mp4''] ! i, st)"
    by (simp add: second_unnamed_env_def second_empty_env_def scripted_env_def base_env_def)
  have ue': "\<forall>i<length [1 :: int]. \<exists>st.
      fetch_video_url second_unnamed_env
        ([] @ FetchMetadata (IntId 7) # map FetchVideoUrl (take i [1])) ([1] ! i) =
      Inr ([Some ''http://cdn/1.mp4''] ! i, st)"
    by (simp add: second_unnamed_env_def second_empty_env_def scripted_env_def base_env_def)
  have uf: "((Map.empty :: work) ''workId'' = None \<and> KeyError_workId = KeyError_workId \<and> ([] :: history) = [])
      \<or> (\<exists>wid. (Map.empty :: work) ''workId'' = Some wid
            \<and> fetch_video_url second_unnamed_env
                 ([] @ FetchMetadata (StrId ''7'') # map FetchVideoUrl [1]) wid = Inl KeyError_workId
            \<and> ([] :: history) = [FetchVideoUrl wid])"
    by simp
  have uf': "((Map.empty :: work) ''workId'' = None \<and> KeyError_workId = KeyError_workId \<and> ([] :: history) = [])
      \<or> (\<exists>wid. (Map.empty :: work) ''workId'' = Some wid
            \<and> fetch_video_url second_unnamed_env
                 ([] @ FetchMetadata (IntId 7) # map FetchVideoUrl [1]) wid = Inl KeyError_workId
            \<and> ([] :: history) = [FetchVideoUrl wid])"
    by simp
  note inst3 = resources_kept_in_order [where env = second_unnamed_env and h = "[]" and tid = "''7''"
      and d = second_unnamed_works and ids = "[1]" and rs = "[Some ''http://cdn/1.mp4'']"
      and ?ws1.0 = "[[''workId'' \<mapsto> 1]]" and w = "Map.empty"
      and ?ws2.0 = "[[''workId'' \<mapsto> 3]]" and e = KeyError_workId and evs = "[]"
      and t = 7 and u = "''http://hook''"]
  from inst3 ua ub rc rd ue uf
  have 5: "get_video_status second_unnamed_env ''7'' [] =
        (Inl (HTTPException 400 (str second_unnamed_env KeyError_workId)),
         [] @ FetchMetadata (StrId ''7'') # map FetchVideoUrl [1] @ [])"
    by blast
  from inst3 ua' ub rc rd ue' uf'
  have 6: "poll_and_notify second_unnamed_env 7 ''http://hook'' [] =
        Some (client_post second_unnamed_env ([] @ FetchMetadata (IntId 7) # map FetchVideoUrl [1] @ [])
                ''http://hook''
                [(''task_id'', JInt 7), (''status'', JStr ''error''),
                 (''error'', JStr (str second_unnamed_env KeyError_workId))],
              [] @ FetchMetadata (IntId 7) # map FetchVideoUrl [1] @ [] @
                [ClientPost ''http://hook'' [(''task_id'', JInt 7), (''status'', JStr ''error''),
                               (''error'', JStr (str second_unnamed_env KeyError_workId))]])"
    by blast
  have cp: "client_post second_unnamed_env hh uu pp = None" for hh uu pp
    by (simp add: second_unnamed_env_def second_empty_env_def scripted_env_def base_env_def)
  from 1 2 3 4 5 6 show ?thesis
    by (simp add: KeyError_workId_def cp)
qed

text \<open>
  C2 as stated fails for a lookup that fails by raising: with three works of which the
  second lookup raises, \<open>get_video_status\<close> answers the 400 error and no URL at all, and
  \<open>poll_and_notify\<close> posts the error payload; the third work is never looked up.
\<close>

theorem raising_lookup_aborts:
  "get_video_status second_raises_env ''7'' [] =
     (Inl (HTTPException 400 ''lookup failed''),
      [FetchMetadata (StrId ''7''), FetchVideoUrl 1, FetchVideoUrl 2])
   \<and> poll_and_notify second_raises_env 7 ''http://hook'' [] =
     Some (None,
           [FetchMetadata (IntId 7), FetchVideoUrl 1, FetchVideoUrl 2,
            ClientPost ''http://hook''
              [(''task_id'', JInt 7), (''status'', JStr ''error''),
               (''error'', JStr ''lookup failed'')]])"
proof -
  have a: "get_video_status second_raises_env ''7'' [] =
     (Inl (HTTPException 400 ''lookup failed''),
      [FetchMetadata (StrId ''7''), FetchVideoUrl 1, FetchVideoUrl 2])"
    by (simp add: get_video_status_def second_raises_env_def scripted_env_def base_env_def
          answer_at_def three_works_def get_works_def)
  have "poll_try second_raises_env 7 ''http://hook'' [] =
     (Inl (Exn ''lookup failed''), [FetchMetadata (IntId 7), FetchVideoUrl 1, FetchVideoUrl 2])"
    by (simp add: poll_try_def second_raises_env_def scripted_env_def base_env_def
          answer_at_def three_works_def get_works_def)
  from poll_and_notify_raise [OF this]
  have b: "poll_and_notify second_raises_env 7 ''http://hook'' [] =
     Some (None,
           [FetchMetadata (IntId 7), FetchVideoUrl 1, FetchVideoUrl 2,
            ClientPost ''http://hook''
              [(''task_id'', JInt 7), (''status'', JStr ''error''),
               (''error'', JStr ''lookup failed'')]])"
    by (simp add: error_payload_def second_raises_env_def scripted_env_def base_env_def)
  from a b show ?thesis by blast
qed

lemma poll_ends_after_pending:
  assumes "poll_and_notify env t u h = Some y"
  shows "\<exists>k. (\<forall>i<k. \<exists>d. fetch_metadata env (h @ pending_history t i) (IntId t) = Inr (d, PENDING))
     \<and> \<not> (\<exists>d. fetch_metadata env (h @ pending_history t k) (IntId t) = Inr (d, PENDING))"
proof (rule poll_and_notify.raw_induct
    [where P = "\<lambda>env t u h y. \<exists>k.
       (\<forall>i<k. \<exists>d. fetch_metadata env (h @ pending_history t i) (IntId t) = Inr (d, PENDING))
       \<and> \<not> (\<exists>d. fetch_metadata env (h @ pending_history t k) (IntId t) = Inr (d, PENDING))",
     OF _ assms])
  fix poll env t u h y
  assume IH: "\<And>env t u h y. poll env t u h = Some y \<Longrightarrow> \<exists>k.
       (\<forall>i<k. \<exists>d. fetch_metadata env (h @ pending_history t i) (IntId t) = Inr (d, PENDING))
       \<and> \<not> (\<exists>d. fetch_metadata env (h @ pending_history t k) (IntId t) = Inr (d, PENDING))"
    and body: "(case poll_iteration env t u h of
        (Again, h1) \<Rightarrow> poll env t u h1
      | (Return, h1) \<Rightarrow> Some (None, h1)
      | (Raise e, h1) \<Rightarrow> Some (Some e, h1)) = Some y"
  show "\<exists>k. (\<forall>i<k. \<exists>d. fetch_metadata env (h @ pending_history t i) (IntId t) = Inr (d, PENDING))
       \<and> \<not> (\<exists>d. fetch_metadata env (h @ pending_history t k) (IntId t) = Inr (d, PENDING))"
  proof (cases "\<exists>d. fetch_metadata env h (IntId t) = Inr (d, PENDING)")
    case False
    then have "(\<forall>i<(0::nat). \<exists>d. fetch_metadata env (h @ pending_history t i) (IntId t) = Inr (d, PENDING))
       \<and> \<not> (\<exists>d. fetch_metadata env (h @ pending_history t 0) (IntId t) = Inr (d, PENDING))"
      by (simp add: pending_history_0)
    then show ?thesis by (rule exI)
  next
    case True
    then obtain d where d: "fetch_metadata env h (IntId t) = Inr (d, PENDING)" by blast
    from poll_iteration_pending [OF d] body
    have "poll env t u (h @ [FetchMetadata (IntId t), Sleep 5]) = Some y" by simp
    from IH [OF this] obtain k where
      k1: "\<forall>i<k. \<exists>d. fetch_metadata env ((h @ [FetchMetadata (IntId t), Sleep 5]) @ pending_history t i) (IntId t) = Inr (d, PENDING)"
      and k2: "\<not> (\<exists>d. fetch_metadata env ((h @ [FetchMetadata (IntId t), Sleep 5]) @ pending_history t k) (IntId t) = Inr (d, PENDING))"
      by blast
    have "\<forall>i<Suc k. \<exists>d. fetch_metadata env (h @ pending_history t i) (IntId t) = Inr (d, PENDING)"
    proof (intro allI impI)
      fix i assume i: "i < Suc k"
      show "\<exists>d. fetch_metadata env (h @ pending_history t i) (IntId t) = Inr (d, PENDING)"
      proof (cases i)
        case 0
        with d show ?thesis by (simp add: pending_history_0)
      next
        case (Suc j)
        with i k1 [rule_format, of j] show ?thesis by (simp add: pending_history_Suc)
      qed
    qed
    moreover from k2
    have "\<not> (\<exists>d. fetch_metadata env (h @ pending_history t (Suc k)) (IntId t) = Inr (d, PENDING))"
      by (simp add: pending_history_Suc)
    ultimately show ?thesis by blast
  qed
qed

text \<open>The run that ends at a poll seeing FAILED.\<close>

lemma run_failed:
  assumes "\<forall>i<k. \<exists>d. fetch_metadata env (h @ pending_history t i) (IntId t) = Inr (d, PENDING)"
    and "fetch_metadata env (h @ pending_history t k) (IntId t) = Inr (d, FAILED)"
  shows "poll_and_notify env t u h =
     Some (case client_post env (h @ pending_history t k @ [FetchMetadata (IntId t)]) u (failed_payload t) of
             None \<Rightarrow>
               (None, h @ pending_history t k @
                      [FetchMetadata (IntId t), ClientPost u (failed_payload t)])
           | Some e \<Rightarrow>
               (client_post env
                  (h @ pending_history t k @ [FetchMetadata (IntId t), ClientPost u (failed_payload t)])
                  u (error_payload t (str env e)),
                h @ pending_history t k @
                  [FetchMetadata (IntId t), ClientPost u (failed_payload t),
                   ClientPost u (error_payload t (str env e))]))"
proof -
  let ?H = "h @ pending_history t k"
  from assms(1) have eq: "poll_and_notify env t u h = poll_and_notify env t u ?H"
    by (rule poll_after_pending)
  note pt = poll_try_failed [OF assms(2), of u]
  show ?thesis
  proof (cases "client_post env (?H @ [FetchMetadata (IntId t)]) u (failed_payload t)")
    case None
    with pt have "poll_try env t u ?H = (Inr Break, ?H @ [FetchMetadata (IntId t), ClientPost u (failed_payload t)])"
      by simp
    from poll_and_notify_break [OF this] eq None show ?thesis by simp
  next
    case (Some e)
    with pt have "poll_try env t u ?H = (Inl e, ?H @ [FetchMetadata (IntId t), ClientPost u (failed_payload t)])"
      by simp
    from poll_and_notify_raise [OF this] eq Some show ?thesis by simp
  qed
qed

text \<open>The run that ends at a poll seeing COMPLETED, when the loop over the works returns.\<close>

lemma run_completed:
  assumes "\<forall>i<k. \<exists>d. fetch_metadata env (h @ pending_history t i) (IntId t) = Inr (d, PENDING)"
    and "fetch_metadata env (h @ pending_history t k) (IntId t) = Inr (d, COMPLETED)"
    and "collect_video_urls env (get_works d) [] (h @ pending_history t k @ [FetchMetadata (IntId t)]) =
         (Inr urls, h2)"
  shows "poll_and_notify env t u h =
     Some (case client_post env h2 u (completed_payload t urls) of
             None \<Rightarrow> (None, h2 @ [ClientPost u (completed_payload t urls)])
           | Some e \<Rightarrow>
               (client_post env (h2 @ [ClientPost u (completed_payload t urls)]) u
                  (error_payload t (str env e)),
                h2 @ [ClientPost u (completed_payload t urls),
                      ClientPost u (error_payload t (str env e))]))"
proof -
  let ?H = "h @ pending_history t k"
  from assms(1) have eq: "poll_and_notify env t u h = poll_and_notify env t u ?H"
    by (rule poll_after_pending)
  from assms(3) have c: "collect_video_urls env (get_works d) [] (?H @ [FetchMetadata (IntId t)]) = (Inr urls, h2)"
    by simp
  note pt = poll_try_completed [OF assms(2) c, of u]
  show ?thesis
  proof (cases "client_post env h2 u (completed_payload t urls)")
    case None
    with pt have "poll_try env t u ?H = (Inr Break, h2 @ [ClientPost u (completed_payload t urls)])"
      by simp
    from poll_and_notify_break [OF this] eq None show ?thesis by simp
  next
    case (Some e)
    with pt have "poll_try env t u ?H = (Inl e, h2 @ [ClientPost u (completed_payload t urls)])"
      by simp
    from poll_and_notify_raise [OF this] eq Some show ?thesis by simp
  qed
qed

text \<open>The runs that end because the poll, or the loop over the works, raised.\<close>

lemma run_fetch_raises:
  assumes "\<forall>i<k. \<exists>d. fetch_metadata env (h @ pending_history t i) (IntId t) = Inr (d, PENDING)"
    and "fetch_metadata env (h @ pending_history t k) (IntId t) = Inl e"
  shows "poll_and_notify env t u h =
     Some (client_post env (h @ pending_history t k @ [FetchMetadata (IntId t)]) u
             (error_payload t (str env e)),
           h @ pending_history t k @
             [FetchMetadata (IntId t), ClientPost u (error_payload t (str env e))])"
proof -
  from assms(1) have eq: "poll_and_notify env t u h = poll_and_notify env t u (h @ pending_history t k)"
    by (rule poll_after_pending)
  from poll_and_notify_raise [OF poll_try_fetch_raises [OF assms(2)], of u] eq
  show ?thesis by simp
qed

lemma run_lookup_raises:
  assumes "\<forall>i<k. \<exists>d. fetch_metadata env (h @ pending_history t i) (IntId t) = Inr (d, PENDING)"
    and "fetch_metadata env (h @ pending_history t k) (IntId t) = Inr (d, COMPLETED)"
    and "collect_video_urls env (get_works d) [] (h @ pending_history t k @ [FetchMetadata (IntId t)]) =
         (Inl e, h2)"
  shows "poll_and_notify env t u h =
     Some (client_post env h2 u (error_payload t (str env e)),
           h2 @ [ClientPost u (error_payload t (str env e))])"
proof -
  from assms(1) have eq: "poll_and_notify env t u h = poll_and_notify env t u (h @ pending_history t k)"
    by (rule poll_after_pending)
  from assms(3) have c: "collect_video_urls env (get_works d) []
      ((h @ pending_history t k) @ [FetchMetadata (IntId t)]) = (Inl e, h2)"
    by simp
  from poll_and_notify_raise [OF poll_try_completed_raises [OF assms(2) c], of u] eq
  show ?thesis by simp
qed

lemma collect_history_from:
  "collect_video_urls env ws urls (h @ pending_history t k @ [FetchMetadata (IntId t)]) = (res, h2) \<Longrightarrow>
   \<exists>ids. h2 = h @ pending_history t k @ FetchMetadata (IntId t) # map FetchVideoUrl ids"
  using collect_history [of env ws urls "h @ pending_history t k @ [FetchMetadata (IntId t)]" res h2]
  by auto

text \<open>\<open>poll_for\<close> is the beginning of \<open>poll_and_notify\<close>.\<close>

lemma poll_for_loop:
  "poll_for n env t u h = (s, h1) \<Longrightarrow>
   poll_and_notify env t u h =
     (case s of
        Again \<Rightarrow> poll_and_notify env t u h1
      | Return \<Rightarrow> Some (None, h1)
      | Raise e \<Rightarrow> Some (Some e, h1))"
proof (induction n arbitrary: h)
  case 0
  then show ?case by simp
next
  case (Suc n)
  obtain s0 h0 where it: "poll_iteration env t u h = (s0, h0)"
    by (cases "poll_iteration env t u h")
  show ?case
  proof (cases s0)
    case Again
    with it Suc.prems have "poll_for n env t u h0 = (s, h1)" by simp
    from Suc.IH [OF this] poll_and_notify_Again [OF it [unfolded Again]] show ?thesis by simp
  next
    case Return
    with it Suc.prems have "s = Return" "h1 = h0" by simp_all
    with poll_and_notify_Return [OF it [unfolded Return]] show ?thesis by simp
  next
    case (Raise e)
    with it Suc.prems have "s = Raise e" "h1 = h0" by simp_all
    with poll_and_notify_Raise [OF it [unfolded Raise]] show ?thesis by simp
  qed
qed

lemma poll_for_pending:
  assumes "\<forall>h0. \<exists>d. fetch_metadata env h0 (IntId t) = Inr (d, PENDING)"
  shows "poll_for n env t u h = (Again, h @ pending_history t n)"
proof (induction n arbitrary: h)
  case 0
  then show ?case by (simp add: pending_history_0)
next
  case (Suc n)
  from assms obtain d where "fetch_metadata env h (IntId t) = Inr (d, PENDING)" by blast
  from poll_iteration_pending [OF this, of u] Suc.IH [of "h @ [FetchMetadata (IntId t), Sleep 5]"]
  show ?case by (simp add: pending_history_Suc)
qed

lemma pending_history_events:
  "set (pending_history t n) \<subseteq> {FetchMetadata (IntId t), Sleep 5}"
  by (induction n) (auto simp: pending_history_0 pending_history_Suc)

lemma create_video_scheduled:
  "create_video env request h = (res, tasks, h2) \<Longrightarrow>
   tasks = (case res of
              Inl e \<Rightarrow> []
            | Inr n \<Rightarrow>
                (case webhook_url request of
                   None \<Rightarrow> []
                 | Some url \<Rightarrow> if url = [] then [] else [(n, url)]))"
  by (auto simp: create_video_def download_image_def Let_def
        split: sum.splits prod.splits option.splits if_splits)

text \<open>
  C1, as the code has it.
  \<^item> A run of the loop that ends has a first poll that does not see PENDING; before it
    come the polls that saw PENDING, each followed by a sleep of 5. No poll follows the
    first POST.
  \<^item> When that poll sees FAILED, or sees COMPLETED and the loop over the works returns,
    the failed (completed) payload is posted. When that POST returns it is the last
    event; when it raises, the handler posts the error payload, once, and that POST is
    the last event.
  \<^item> When that poll raises, or the loop over the works raises, the handler posts the error
    payload; that POST is the only one and the last event, whether it returns or raises
    (the loop's result is that POST's).
  \<^item> The loop ends as soon as a poll does not see PENDING. When every poll sees PENDING it
    never ends, and after any number of turns its history holds polls and sleeps only.
  \<^item> \<open>create_video\<close> itself posts nothing; it schedules one loop, for the new task id,
    when the request is accepted and has a non-empty \<open>webhook_url\<close>, and none otherwise.
\<close>

theorem delivery_attempts:
  "(poll_and_notify env t u h = Some (r, h') \<longrightarrow>
      (\<exists>k. (\<forall>i<k. \<exists>d. fetch_metadata env (h @ pending_history t i) (IntId t) = Inr (d, PENDING))
          \<and> \<not> (\<exists>d. fetch_metadata env (h @ pending_history t k) (IntId t) = Inr (d, PENDING)))
      \<and> (\<exists>before p rest.
           h' = h @ before @ ClientPost u p # rest
           \<and> filter is_post before = [] \<and> filter is_poll rest = []
           \<and> (client_post env (h @ before) u p = None \<longrightarrow> rest = [])
           \<and> (rest \<noteq> [] \<longrightarrow> (\<exists>e. client_post env (h @ before) u p = Some e
                  \<and> rest = [ClientPost u (error_payload t (str env e))]))))
   \<and> ((\<forall>i<k. \<exists>d. fetch_metadata env (h @ pending_history t i) (IntId t) = Inr (d, PENDING))
        \<and> \<not> (\<exists>d. fetch_metadata env (h @ pending_history t k) (IntId t) = Inr (d, PENDING)) \<longrightarrow>
        poll_and_notify env t u h \<noteq> None)
   \<and> ((\<forall>i<k. \<exists>d. fetch_metadata env (h @ pending_history t i) (IntId t) = Inr (d, PENDING))
        \<and> fetch_metadata env (h @ pending_history t k) (IntId t) = Inr (d, FAILED) \<longrightarrow>
        poll_and_notify env t u h =
          Some (case client_post env (h @ pending_history t k @ [FetchMetadata (IntId t)]) u
                       (failed_payload t) of
                  None \<Rightarrow>
                    (None, h @ pending_history t k @
                           [FetchMetadata (IntId t), ClientPost u (failed_payload t)])
                | Some e \<Rightarrow>
                    (client_post env
                       (h @ pending_history t k @
                          [FetchMetadata (IntId t), ClientPost u (failed_payload t)])
                       u (error_payload t (str env e)),
                     h @ pending_history t k @
                       [FetchMetadata (IntId t), ClientPost u (failed_payload t),
                        ClientPost u (error_payload t (str env e))])))
   \<and> ((\<forall>i<k. \<exists>d. fetch_metadata env (h @ pending_history t i) (IntId t) = Inr (d, PENDING))
        \<and> fetch_metadata env (h @ pending_history t k) (IntId t) = Inr (d, COMPLETED)
        \<and> collect_video_urls env (get_works d) []
             (h @ pending_history t k @ [FetchMetadata (IntId t)]) = (Inr urls, hw) \<longrightarrow>
        (\<exists>ids. hw = h @ pending_history t k @ FetchMetadata (IntId t) # map FetchVideoUrl ids)
        \<and> poll_and_notify env t u h =
          Some (case client_post env hw u (completed_payload t urls) of
                  None \<Rightarrow> (None, hw @ [ClientPost u (completed_payload t urls)])
                | Some e \<Rightarrow>
                    (client_post env (hw @ [ClientPost u (completed_payload t urls)]) u
                       (error_payload t (str env e)),
                     hw @ [ClientPost u (completed_payload t urls),
                           ClientPost u (error_payload t (str env e))])))
   \<and> ((\<forall>i<k. \<exists>d. fetch_metadata env (h @ pending_history t i) (IntId t) = Inr (d, PENDING))
        \<and> fetch_metadata env (h @ pending_history t k) (IntId t) = Inl e \<longrightarrow>
        poll_and_notify env t u h =
          Some (client_post env (h @ pending_history t k @ [FetchMetadata (IntId t)]) u
                  (error_payload t (str env e)),
                h @ pending_history t k @
                  [FetchMetadata (IntId t), ClientPost u (error_payload t (str env e))]))
   \<and> ((\<forall>i<k. \<exists>d. fetch_metadata env (h @ pending_history t i) (IntId t) = Inr (d, PENDING))
        \<and> fetch_metadata env (h @ pending_history t k) (IntId t) = Inr (d, COMPLETED)
        \<and> collect_video_urls env (get_works d) []
             (h @ pending_history t k @ [FetchMetadata (IntId t)]) = (Inl e, hw) \<longrightarrow>
        (\<exists>ids. hw = h @ pending_history t k @ FetchMetadata (IntId t) # map FetchVideoUrl ids)
        \<and> poll_and_notify env t u h =
          Some (client_post env hw u (error_payload t (str env e)),
                hw @ [ClientPost u (error_payload t (str env e))]))
   \<and> ((\<forall>h0. \<exists>d. fetch_metadata env h0 (IntId t) = Inr (d, PENDING)) \<longrightarrow>
        poll_and_notify env t u h = None
        \<and> poll_for n env t u h = (Again, h @ pending_history t n)
        \<and> set (pending_history t n) \<subseteq> {FetchMetadata (IntId t), Sleep 5}
        \<and> filter is_post (pending_history t n) = [])
   \<and> (poll_for n env t u h = (s, h1) \<longrightarrow>
        poll_and_notify env t u h =
          (case s of
             Again \<Rightarrow> poll_and_notify env t u h1
           | Return \<Rightarrow> Some (None, h1)
           | Raise e \<Rightarrow> Some (Some e, h1)))
   \<and> (create_video env request h = (res, tasks, h2) \<longrightarrow>
        filter is_post h2 = filter is_post h
        \<and> tasks = (case res of
                     Inl e \<Rightarrow> []
                   | Inr n \<Rightarrow>
                       (case webhook_url request of
                          None \<Rightarrow> []
                        | Some url \<Rightarrow> if url = [] then [] else [(n, url)])))"
proof -
  have c1: "poll_and_notify env t u h = Some (r, h') \<longrightarrow>
      (\<exists>k. (\<forall>i<k. \<exists>d. fetch_metadata env (h @ pending_history t i) (IntId t) = Inr (d, PENDING))
          \<and> \<not> (\<exists>d. fetch_metadata env (h @ pending_history t k) (IntId t) = Inr (d, PENDING)))
      \<and> (\<exists>before p rest.
           h' = h @ before @ ClientPost u p # rest
           \<and> filter is_post before = [] \<and> filter is_poll rest = []
           \<and> (client_post env (h @ before) u p = None \<longrightarrow> rest = [])
           \<and> (rest \<noteq> [] \<longrightarrow> (\<exists>e. client_post env (h @ before) u p = Some e
                  \<and> rest = [ClientPost u (error_payload t (str env e))])))"
    using poll_ends_after_pending [of env t u h "(r, h')"] poll_and_notify_posts [of env t u h r h']
    by (intro impI conjI) assumption+
  have c2: "(\<forall>i<k. \<exists>d. fetch_metadata env (h @ pending_history t i) (IntId t) = Inr (d, PENDING))
        \<and> \<not> (\<exists>d. fetch_metadata env (h @ pending_history t k) (IntId t) = Inr (d, PENDING)) \<longrightarrow>
        poll_and_notify env t u h \<noteq> None"
    using poll_terminates [of k env h t u] by blast
  have c3: "(\<forall>i<k. \<exists>d. fetch_metadata env (h @ pending_history t i) (IntId t) = Inr (d, PENDING))
        \<and> fetch_metadata env (h @ pending_history t k) (IntId t) = Inr (d, FAILED) \<longrightarrow>
        poll_and_notify env t u h =
          Some (case client_post env (h @ pending_history t k @ [FetchMetadata (IntId t)]) u
                       (failed_payload t) of
                  None \<Rightarrow>
                    (None, h @ pending_history t k @
                           [FetchMetadata (IntId t), ClientPost u (failed_payload t)])
                | Some e \<Rightarrow>
                    (client_post env
                       (h @ pending_history t k @
                          [FetchMetadata (IntId t), ClientPost u (failed_payload t)])
                       u (error_payload t (str env e)),
                     h @ pending_history t k @
                       [FetchMetadata (IntId t), ClientPost u (failed_payload t),
                        ClientPost u (error_payload t (str env e))]))"
    using run_failed [of k env h t d u] by blast
  have c4: "(\<forall>i<k. \<exists>d. fetch_metadata env (h @ pending_history t i) (IntId t) = Inr (d, PENDING))
        \<and> fetch_metadata env (h @ pending_history t k) (IntId t) = Inr (d, COMPLETED)
        \<and> collect_video_urls env (get_works d) []
             (h @ pending_history t k @ [FetchMetadata (IntId t)]) = (Inr urls, hw) \<longrightarrow>
        (\<exists>ids. hw = h @ pending_history t k @ FetchMetadata (IntId t) # map FetchVideoUrl ids)
        \<and> poll_and_notify env t u h =
          Some (case client_post env hw u (completed_payload t urls) of
                  None \<Rightarrow> (None, hw @ [ClientPost u (completed_payload t urls)])
                | Some e \<Rightarrow>
                    (client_post env (hw @ [ClientPost u (completed_payload t urls)]) u
                       (error_payload t (str env e)),
                     hw @ [ClientPost u (completed_payload t urls),
                           ClientPost u (error_payload t (str env e))]))"
    using run_completed [of k env h t d urls hw u]
      collect_history_from [of env "get_works d" "[]" h t k "Inr urls" hw]
    by blast
  have c5: "(\<forall>i<k. \<exists>d. fetch_metadata env (h @ pending_history t i) (IntId t) = Inr (d, PENDING))
        \<and> fetch_metadata env (h @ pending_history t k) (IntId t) = Inl e \<longrightarrow>
        poll_and_notify env t u h =
          Some (client_post env (h @ pending_history t k @ [FetchMetadata (IntId t)]) u
                  (error_payload t (str env e)),
                h @ pending_history t k @
                  [FetchMetadata (IntId t), ClientPost u (error_payload t (str env e))])"
    using run_fetch_raises [of k env h t e u] by blast
  have c6: "(\<forall>i<k. \<exists>d. fetch_metadata env (h @ pending_history t i) (IntId t) = Inr (d, PENDING))
        \<and> fetch_metadata env (h @ pending_history t k) (IntId t) = Inr (d, COMPLETED)
        \<and> collect_video_urls env (get_works d) []
             (h @ pending_history t k @ [FetchMetadata (IntId t)]) = (Inl e, hw) \<longrightarrow>
        (\<exists>ids. hw = h @ pending_history t k @ FetchMetadata (IntId t) # map FetchVideoUrl ids)
        \<and> poll_and_notify env t u h =
          Some (client_post env hw u (error_payload t (str env e)),
                hw @ [ClientPost u (error_payload t (str env e))])"
    using run_lookup_raises [of k env h t d e hw u]
      collect_history_from [of env "get_works d" "[]" h t k "Inl e" hw]
    by blast
  have c7: "(\<forall>h0. \<exists>d. fetch_metadata env h0 (IntId t) = Inr (d, PENDING)) \<longrightarrow>
        poll_and_notify env t u h = None
        \<and> poll_for n env t u h = (Again, h @ pending_history t n)
        \<and> set (pending_history t n) \<subseteq> {FetchMetadata (IntId t), Sleep 5}
        \<and> filter is_post (pending_history t n) = []"
    using poll_forever [of env t u h] poll_for_pending [of env t n u h]
      pending_history_events [of t n] no_post_pending_history [of t n]
    by blast
  have c8: "poll_for n env t u h = (s, h1) \<longrightarrow>
        poll_and_notify env t u h =
          (case s of
             Again \<Rightarrow> poll_and_notify env t u h1
           | Return \<Rightarrow> Some (None, h1)
           | Raise e \<Rightarrow> Some (Some e, h1))"
    using poll_for_loop [of n env t u h s h1] by blast
  have c9: "create_video env request h = (res, tasks, h2) \<longrightarrow>
        filter is_post h2 = filter is_post h
        \<and> tasks = (case res of
                     Inl e \<Rightarrow> []
                   | Inr n \<Rightarrow>
                       (case webhook_url request of
                          None \<Rightarrow> []
                        | Some url \<Rightarrow> if url = [] then [] else [(n, url)]))"
    using create_video_no_post [of env request h res tasks h2]
      create_video_scheduled [of env request h res tasks h2]
    by blast
  show ?thesis
    apply (rule conjI, rule c1)
    apply (rule conjI, rule c2)
    apply (rule conjI, rule c3)
    apply (rule conjI, rule c4)
    apply (rule conjI, rule c5)
    apply (rule conjI, rule c6)
    apply (rule conjI, rule c7)
    apply (rule conjI, rule c8)
    apply (rule c9)
    done
qed

lemma first_post_raises_run:
  "poll_and_notify first_post_raises_env 7 ''http://hook'' [] =
     Some (None,
           [FetchMetadata (IntId 7),
            ClientPost ''http://hook''
              [(''task_id'', JInt 7), (''status'', JStr ''failed''),
               (''error'', JStr ''Video generation failed'')],
            ClientPost ''http://hook''
              [(''task_id'', JInt 7), (''status'', JStr ''error''),
               (''error'', JStr ''connection reset'')]])"
proof -
  have "poll_try first_post_raises_env 7 ''http://hook'' [] =
     (Inl (Exn ''connection reset''),
      [FetchMetadata (IntId 7), ClientPost ''http://hook'' (failed_payload 7)])"
    by (simp add: poll_try_def post_def first_post_raises_env_def scripted_env_def base_env_def
          answer_at_def is_post_def is_poll_def)
  from poll_and_notify_raise [OF this] show ?thesis
    by (simp add: error_payload_def failed_payload_def first_post_raises_env_def scripted_env_def
          base_env_def is_post_def)
qed

lemma base_env_always_pending:
  "\<forall>h0. \<exists>d. fetch_metadata base_env h0 (IntId 7) = Inr (d, PENDING)"
  by (simp add: base_env_def)

text \<open>
  C1 as stated fails twice. When the webhook's first POST raises, the handler posts
  again: the run of the loop contains two POSTs. When the provider reports PENDING for
  ever, the loop never ends and makes no delivery attempt.
\<close>

theorem two_posts_or_none:
  "poll_and_notify first_post_raises_env 7 ''http://hook'' [] =
     Some (None,
           [FetchMetadata (IntId 7),
            ClientPost ''http://hook''
              [(''task_id'', JInt 7), (''status'', JStr ''failed''),
               (''error'', JStr ''Video generation failed'')],
            ClientPost ''http://hook''
              [(''task_id'', JInt 7), (''status'', JStr ''error''),
               (''error'', JStr ''connection reset'')]])
   \<and> poll_and_notify base_env 7 ''http://hook'' [] = None"
  using first_post_raises_run poll_forever [OF base_env_always_pending] by blast

theorem delivery_attempts_witness:
  "poll_and_notify first_post_raises_env 7 ''http://hook'' [] =
     Some (None,
           [FetchMetadata (IntId 7),
            ClientPost ''http://hook'' (failed_payload 7),
            ClientPost ''http://hook'' (error_payload 7 ''connection reset'')])
   \<and> poll_and_notify hook_down_env 7 ''http://hook'' [] =
     Some (Some (Exn ''connection refused''),
           [FetchMetadata (IntId 7),
            ClientPost ''http://hook'' (error_payload 7 ''timed out'')])
   \<and> poll_and_notify second_empty_env 7 ''http://hook'' [] =
     Some (None,
           [FetchMetadata (IntId 7), FetchVideoUrl 1, FetchVideoUrl 2, FetchVideoUrl 3,
            ClientPost ''http://hook''
              (completed_payload 7 [''http://cdn/1.mp4'', ''http://cdn/3.mp4''])])
   \<and> poll_and_notify failed_env 7 ''http://hook'' [] \<noteq> None
   \<and> poll_and_notify base_env 7 ''http://hook'' [] = None
   \<and> poll_for 3 base_env 7 ''http://hook'' [] =
       (Again, [FetchMetadata (IntId 7), Sleep 5, FetchMetadata (IntId 7), Sleep 5,
                FetchMetadata (IntId 7), Sleep 5])
   \<and> create_video base_env plain_request [] =
       (Inr 7, [], [GetVideo (get_video_kwargs plain_request)])
   \<and> fst (snd (create_video base_env (plain_request\<lparr>webhook_url := Some ''http://hook''\<rparr>) [])) =
       [(7, ''http://hook'')]"
proof -
  have nil: "\<forall>i<(0::nat). \<exists>d. fetch_metadata env ([] @ pending_history 7 i) (IntId 7) = Inr (d, PENDING)"
    for env by simp
  \<comment> \<open>FAILED, and the POST of the failed payload raises\<close>
  have f1: "fetch_metadata first_post_raises_env ([] @ pending_history 7 0) (IntId 7) =
      Inr (Map.empty, FAILED)"
    by (simp add: pending_history_0 first_post_raises_env_def scripted_env_def base_env_def
          answer_at_def)
  from delivery_attempts [where env = first_post_raises_env and t = 7 and u = "''http://hook''"
      and h = "[]" and k = 0 and d = Map.empty] nil [of first_post_raises_env] f1
  have "poll_and_notify first_post_raises_env 7 ''http://hook'' [] =
          Some (case client_post first_post_raises_env ([] @ pending_history 7 0 @ [FetchMetadata (IntId 7)])
                       ''http://hook'' (failed_payload 7) of
                  None \<Rightarrow>
                    (None, [] @ pending_history 7 0 @
                           [FetchMetadata (IntId 7), ClientPost ''http://hook'' (failed_payload 7)])
                | Some e \<Rightarrow>
                    (client_post first_post_raises_env
                       ([] @ pending_history 7 0 @
                          [FetchMetadata (IntId 7), ClientPost ''http://hook'' (failed_payload 7)])
                       ''http://hook'' (error_payload 7 (str first_post_raises_env e)),
                     [] @ pending_history 7 0 @
                       [FetchMetadata (IntId 7), ClientPost ''http://hook'' (failed_payload 7),
                        ClientPost ''http://hook'' (error_payload 7 (str first_post_raises_env e))]))"
    by blast
  then have 1: "poll_and_notify first_post_raises_env 7 ''http://hook'' [] =
     Some (None,
           [FetchMetadata (IntId 7),
            ClientPost ''http://hook'' (failed_payload 7),
            ClientPost ''http://hook'' (error_payload 7 ''connection reset'')])"
    by (simp add: pending_history_0 first_post_raises_env_def scripted_env_def base_env_def
          is_post_def)
  \<comment> \<open>the poll raises, and so does the handler's POST\<close>
  have g1: "fetch_metadata hook_down_env ([] @ pending_history 7 0) (IntId 7) = Inl (Exn ''timed out'')"
    by (simp add: pending_history_0 hook_down_env_def scripted_env_def base_env_def answer_at_def)
  from delivery_attempts [where env = hook_down_env and t = 7 and u = "''http://hook''"
      and h = "[]" and k = 0 and e = "Exn ''timed out''"] nil [of hook_down_env] g1
  have "poll_and_notify hook_down_env 7 ''http://hook'' [] =
          Some (client_post hook_down_env ([] @ pending_history 7 0 @ [FetchMetadata (IntId 7)])
                  ''http://hook'' (error_payload 7 (str hook_down_env (Exn ''timed out''))),
                [] @ pending_history 7 0 @
                  [FetchMetadata (IntId 7),
                   ClientPost ''http://hook'' (error_payload 7 (str hook_down_env (Exn ''timed out'')))])"
    by blast
  then have 2: "poll_and_notify hook_down_env 7 ''http://hook'' [] =
     Some (Some (Exn ''connection refused''),
           [FetchMetadata (IntId 7),
            ClientPost ''http://hook'' (error_payload 7 ''timed out'')])"
    by (simp add: pending_history_0 hook_down_env_def scripted_env_def base_env_def)
  \<comment> \<open>COMPLETED, and the POST returns\<close>
  have k1: "fetch_metadata second_empty_env ([] @ pending_history 7 0) (IntId 7) =
      Inr (three_works, COMPLETED)"
    by (simp add: pending_history_0 second_empty_env_def scripted_env_def base_env_def answer_at_def)
  have k2: "collect_video_urls second_empty_env (get_works three_works) []
      ([] @ pending_history 7 0 @ [FetchMetadata (IntId 7)]) =
      (Inr [''http://cdn/1.mp4'', ''http://cdn/3.mp4''],
       [FetchMetadata (IntId 7), FetchVideoUrl 1, FetchVideoUrl 2, FetchVideoUrl 3])"
    by (simp add: pending_history_0 second_empty_defs)
  from delivery_attempts [where env = second_empty_env and t = 7 and u = "''http://hook''"
      and h = "[]" and k = 0 and d = three_works
      and urls = "[''http://cdn/1.mp4'', ''http://cdn/3.mp4'']"
      and hw = "[FetchMetadata (IntId 7), FetchVideoUrl 1, FetchVideoUrl 2, FetchVideoUrl 3]"]
    nil [of second_empty_env] k1 k2
  have "poll_and_notify second_empty_env 7 ''http://hook'' [] =
          Some (case client_post second_empty_env
                       [FetchMetadata (IntId 7), FetchVideoUrl 1, FetchVideoUrl 2, FetchVideoUrl 3]
                       ''http://hook'' (completed_payload 7 [''http://cdn/1.mp4'', ''http://cdn/3.mp4'']) of
                  None \<Rightarrow> (None, [FetchMetadata (IntId 7), FetchVideoUrl 1, FetchVideoUrl 2, FetchVideoUrl 3] @
                      [ClientPost ''http://hook'' (completed_payload 7 [''http://cdn/1.mp4'', ''http://cdn/3.mp4''])])
                | Some e \<Rightarrow>
                    (client_post second_empty_env
                       ([FetchMetadata (IntId 7), FetchVideoUrl 1, FetchVideoUrl 2, FetchVideoUrl 3] @
                        [ClientPost ''http://hook'' (completed_payload 7 [''http://cdn/1.mp4'', ''http://cdn/3.mp4''])])
                       ''http://hook'' (error_payload 7 (str second_empty_env e)),
                     [FetchMetadata (IntId 7), FetchVideoUrl 1, FetchVideoUrl 2, FetchVideoUrl 3] @
                       [ClientPost ''http://hook'' (completed_payload 7 [''http://cdn/1.mp4'', ''http://cdn/3.mp4'']),
                        ClientPost ''http://hook'' (error_payload 7 (str second_empty_env e))]))"
    by blast
  then have 3: "poll_and_notify second_empty_env 7 ''http://hook'' [] =
     Some (None,
           [FetchMetadata (IntId 7), FetchVideoUrl 1, FetchVideoUrl 2, FetchVideoUrl 3,
            ClientPost ''http://hook''
              (completed_payload 7 [''http://cdn/1.mp4'', ''http://cdn/3.mp4''])])"
    by (simp add: second_empty_env_def scripted_env_def base_env_def)
  \<comment> \<open>the loop ends at the first poll that does not see PENDING\<close>
  have p: "\<forall>i<Suc 0. \<exists>d. fetch_metadata failed_env ([] @ pending_history 7 i) (IntId 7) = Inr (d, PENDING)"
    by (simp add: pending_history_0 failed_env_first)
  have q: "\<not> (\<exists>d. fetch_metadata failed_env ([] @ pending_history 7 (Suc 0)) (IntId 7) = Inr (d, PENDING))"
    by (simp add: pending_history_Suc pending_history_0 failed_env_second)
  from delivery_attempts [where env = failed_env and t = 7 and u = "''http://hook''"
      and h = "[]" and k = "Suc 0"] p q
  have 4: "poll_and_notify failed_env 7 ''http://hook'' [] \<noteq> None"
    by blast
  \<comment> \<open>PENDING for ever\<close>
  from delivery_attempts [where env = base_env and t = 7 and u = "''http://hook''"
      and h = "[]" and n = 3] base_env_always_pending
  have "poll_and_notify base_env 7 ''http://hook'' [] = None
      \<and> poll_for 3 base_env 7 ''http://hook'' [] = (Again, [] @ pending_history 7 3)"
    by blast
  then have 5: "poll_and_notify base_env 7 ''http://hook'' [] = None
      \<and> poll_for 3 base_env 7 ''http://hook'' [] =
       (Again, [FetchMetadata (IntId 7), Sleep 5, FetchMetadata (IntId 7), Sleep 5,
                FetchMetadata (IntId 7), Sleep 5])"
    by (simp add: pending_history_def numeral_3_eq_3)
  \<comment> \<open>scheduling\<close>
  have cv: "create_video base_env plain_request [] =
       (Inr 7, [], [GetVideo (get_video_kwargs plain_request)])"
    by (simp add: create_video_def download_image_def submit_def cleanup_def
          base_env_def plain_request_def)
  obtain ts hs where cw: "create_video base_env (plain_request\<lparr>webhook_url := Some ''http://hook''\<rparr>) [] =
       (Inr 7, ts, hs)"
    by (simp add: create_video_def download_image_def submit_def cleanup_def
          base_env_def plain_request_def)
  from delivery_attempts [where env = base_env and h = "[]"
      and request = "plain_request\<lparr>webhook_url := Some ''http://hook''\<rparr>"
      and res = "Inr 7" and tasks = ts and ?h2.0 = hs] cw
  have "ts = (case (Inr 7 :: exn + int) of
                     Inl e \<Rightarrow> []
                   | Inr n \<Rightarrow>
                       (case webhook_url (plain_request\<lparr>webhook_url := Some ''http://hook''\<rparr>) of
                          None \<Rightarrow> []
                        | Some url \<Rightarrow> if url = [] then [] else [(n, url)]))"
    by blast
  with cw have 6: "fst (snd (create_video base_env (plain_request\<lparr>webhook_url := Some ''http://hook''\<rparr>) [])) =
       [(7, ''http://hook'')]"
    by simp
  from 1 2 3 4 5 cv 6 show ?thesis by blast
qed

end
